theory Spec2Isabelle
  imports Main
begin

section \<open>Data model of the Quorum ledger connector\<close>

text \<open>
  The development embeds the transaction submission code of
  \<^verbatim>\<open>PluginLedgerConnectorQuorum\<close> (\<^verbatim>\<open>src/unnamed/part_003\<close>): the dispatcher
  \<^verbatim>\<open>transact\<close>, its four signing strategies and the receipt poller.

  Every JavaScript object that the code reads fields from is a record whose optional
  fields are \<open>option\<close>s (\<open>None\<close> is \<^verbatim>\<open>undefined\<close>).  The fields \<^verbatim>\<open>from\<close>, \<^verbatim>\<open>to\<close>
  and \<^verbatim>\<open>value\<close> of the transaction config carry the prefix \<open>tx_\<close>, since the
  plain names are reserved words here; the other fields of that record follow suit.
\<close>

record TransactionConfig =
  tx_from :: "string option"
  tx_to :: "string option"
  tx_data :: "string option"
  tx_gas :: "string option"
  tx_gasPrice :: "string option"
  tx_value :: "string option"
  tx_nonce :: "string option"
  rawTransaction :: "string option"

text \<open>
  \<^verbatim>\<open>Web3SigningCredentialType\<close>: the four members that the \<^verbatim>\<open>switch\<close> of
  \<^verbatim>\<open>transact\<close> names.  The field is a string at run time, so a request can carry any
  other value; \<open>Unrecognized\<close> holds such a value.
\<close>

datatype Web3SigningCredentialType =
    CACTUSKEYCHAINREF
  | GETHKEYCHAINPASSWORD
  | PRIVATEKEYHEX
  | NONE
  | Unrecognized string

text \<open>
  The credential is one object with a \<^verbatim>\<open>type\<close> tag (\<open>cred_type\<close>); the strategies
  cast it and read the fields they need, whatever the tag.
\<close>

record Web3SigningCredential =
  cred_type :: Web3SigningCredentialType
  ethAccount :: "string option"
  secret :: "string option"
  keychainEntryKey :: "string option"
  keychainId :: "string option"

record RunTransactionRequest =
  transactionConfig :: TransactionConfig
  web3SigningCredential :: Web3SigningCredential
  timeoutMs :: "int option"

record TransactionReceipt =
  status :: bool
  transactionHash :: string
  contractAddress :: "string option"

record RunTransactionResponse =
  transactionReceipt :: TransactionReceipt

subsection \<open>Errors\<close>

text \<open>
  An \<^verbatim>\<open>Error\<close> that a collaborator (the web3 client, a keychain plugin) raises is known
  by its message, a \<open>js_error\<close>.  The error the connector's caller sees is an \<open>error\<close>:
  one constructor for each \<^verbatim>\<open>throw\<close> of the embedded code, named as the specification
  names the kinds, and \<open>CollaboratorError\<close> for an error of a collaborator that the code
  lets through (the specification's \<^verbatim>\<open>BroadcastFailed\<close> and \<^verbatim>\<open>KeyNotFound\<close> are
  of this kind).
\<close>

type_synonym js_error = string

datatype error =
    UnsupportedCredentialType string
    \<comment> \<open>\<^verbatim>\<open>transact\<close>, default branch: "Unrecognized Web3SigningCredentialType: ..."\<close>
  | MissingRawTransaction
    \<comment> \<open>\<^verbatim>\<open>transact\<close>, branch NONE: "Expected pre-signed raw transaction ..."\<close>
  | SigningFailed
    \<comment> \<open>\<^verbatim>\<open>transactPrivateKey\<close>: "Failed to sign eth transaction. ..."\<close>
  | RemoteSigningFailed error
    \<comment> \<open>\<^verbatim>\<open>transactGethKeychain\<close>, the catch block: a new Error "Failed to invoke
        web3.eth.personal.sendTransaction(). InnerException: ..." around the caught one\<close>
  | PollTimeout int nat
    \<comment> \<open>\<^verbatim>\<open>pollForTxReceipt\<close>: "Timed out \<open>timeoutMs\<close>ms, polls=\<open>tries\<close>"\<close>
  | KeychainNotFound "string option"
    \<comment> \<open>\<^verbatim>\<open>transactCactusKeychainRef\<close>: \<^verbatim>\<open>Checks.truthy(keychainPlugin, ...)\<close> fails\<close>
  | CollaboratorError js_error

subsection \<open>Collaborators and connector state\<close>

text \<open>
  The world outside the connector (the ledger node, the keychain backends, the wall
  clock) has a state of an arbitrary type \<open>'w\<close>.  An asynchronous call of a collaborator
  takes the world to a new one and either rejects (\<open>Inl\<close>) or resolves (\<open>Inr\<close>).

  \<^item> \<open>sendSignedTransaction\<close> is \<^verbatim>\<open>web3.eth.sendSignedTransaction\<close>; the value it
    resolves with is a receipt (\<open>Inr\<close>) or an \<^verbatim>\<open>Error\<close> instance (\<open>Inl\<close>), the two
    cases that \<^verbatim>\<open>transactSigned\<close> tells apart with \<^verbatim>\<open>instanceof\<close>.
  \<^item> \<open>personal_sendTransaction\<close> is \<^verbatim>\<open>web3.eth.personal.sendTransaction\<close> and
    resolves with the transaction hash.
  \<^item> \<open>signTransaction\<close> is \<^verbatim>\<open>web3.eth.accounts.signTransaction\<close>; of the signed
    transaction it resolves with, only the field \<^verbatim>\<open>rawTransaction\<close> is kept.
  \<^item> \<open>getTransactionReceipt\<close> is \<^verbatim>\<open>web3.eth.getTransactionReceipt\<close>; \<open>None\<close> is
    \<^verbatim>\<open>null\<close>.
  \<^item> \<open>now\<close> is the wall clock in milliseconds, \<^verbatim>\<open>Date.now()\<close>.
\<close>

record 'w Web3 =
  sendSignedTransaction ::
    "string \<Rightarrow> 'w \<Rightarrow> (js_error + (js_error + TransactionReceipt)) \<times> 'w"
  personal_sendTransaction ::
    "TransactionConfig \<Rightarrow> string option \<Rightarrow> 'w \<Rightarrow> (js_error + string) \<times> 'w"
  signTransaction ::
    "TransactionConfig \<Rightarrow> string option \<Rightarrow> 'w \<Rightarrow> (js_error + string option) \<times> 'w"
  getTransactionReceipt ::
    "string \<Rightarrow> 'w \<Rightarrow> (js_error + TransactionReceipt option) \<times> 'w"
  now :: "'w \<Rightarrow> int"

text \<open>
  \<^verbatim>\<open>IPluginKeychain\<close>, as far as the connector uses it: \<^verbatim>\<open>getKeychainId()\<close> and
  the asynchronous \<^verbatim>\<open>get(key)\<close>.  The connector passes on what \<^verbatim>\<open>get\<close> resolves
  with and does not test it, so the value is optional here: \<open>None\<close> is a \<^verbatim>\<open>get\<close> that
  resolves with \<^verbatim>\<open>undefined\<close>.
\<close>

record 'w IPluginKeychain =
  getKeychainId :: string
  get :: "string option \<Rightarrow> 'w \<Rightarrow> (js_error + string option) \<times> 'w"

text \<open>
  The state that a call of \<^verbatim>\<open>transact\<close> can reach:
  \<^item> \<open>pluginRegistry\<close>: the keychain plugins of the plugin registry in registration
    order, that is, what \<^verbatim>\<open>findManyByAspect(PluginAspect.KEYCHAIN)\<close> returns
    (the class \<^verbatim>\<open>PluginRegistry\<close> is not among the source files);
  \<^item> \<open>transactionCount\<close>: the counter of the Prometheus exporter;
  \<^item> \<open>world\<close>: the state of the collaborators.
\<close>

record 'w connector =
  pluginRegistry :: "'w IPluginKeychain list"
  transactionCount :: nat
  world :: 'w

section \<open>The embedded functions\<close>

text \<open>
  JavaScript truthiness of an optional string, as the test of an \<^verbatim>\<open>if\<close>:
  \<^verbatim>\<open>undefined\<close> and the empty string are falsy (\<open>None\<close>); a truthy value is the
  string itself.
\<close>

definition truthy :: "string option \<Rightarrow> string option" where
  "truthy v = (case v of None \<Rightarrow> None | Some str \<Rightarrow> if str = [] then None else Some str)"

text \<open>
  Modelled from the spec: \<^verbatim>\<open>PrometheusExporter.addCurrentTransaction\<close>, whose class is
  not among the source files; the specification says that it increments a process-wide
  transaction counter.
\<close>

definition addCurrentTransaction :: "'w connector \<Rightarrow> 'w connector" where
  "addCurrentTransaction s = s\<lparr>transactionCount := transactionCount s + 1\<rparr>"

text \<open>
  \<^verbatim>\<open>transactSigned\<close>: broadcast, then count the transaction and wrap the receipt.
  A rejection propagates; a resolved \<^verbatim>\<open>Error\<close> is thrown.  The \<^verbatim>\<open>log.debug\<close> call has
  no effect on the state modelled here.
\<close>

definition transactSigned ::
  "'w Web3 \<Rightarrow> string \<Rightarrow> 'w connector \<Rightarrow> (error + RunTransactionResponse) \<times> 'w connector"
where
  "transactSigned web3 rawTx s =
     (case sendSignedTransaction web3 rawTx (world s) of
        (Inl ex, w) \<Rightarrow> (Inl (CollaboratorError ex), s\<lparr>world := w\<rparr>)
      | (Inr (Inl receipt_error), w) \<Rightarrow> (Inl (CollaboratorError receipt_error), s\<lparr>world := w\<rparr>)
      | (Inr (Inr receipt), w) \<Rightarrow>
          (Inr \<lparr>transactionReceipt = receipt\<rparr>, addCurrentTransaction (s\<lparr>world := w\<rparr>)))"

text \<open>
  \<^verbatim>\<open>transactPrivateKey\<close>: sign locally with the credential's \<^verbatim>\<open>secret\<close>, then
  \<^verbatim>\<open>transactSigned\<close>, unless the signed transaction's \<^verbatim>\<open>rawTransaction\<close> is falsy.
\<close>

definition transactPrivateKey ::
  "'w Web3 \<Rightarrow> RunTransactionRequest \<Rightarrow> 'w connector
    \<Rightarrow> (error + RunTransactionResponse) \<times> 'w connector"
where
  "transactPrivateKey web3 req s =
     (case signTransaction web3 (transactionConfig req) (secret (web3SigningCredential req))
             (world s) of
        (Inl ex, w) \<Rightarrow> (Inl (CollaboratorError ex), s\<lparr>world := w\<rparr>)
      | (Inr signedTx_rawTransaction, w) \<Rightarrow>
          (case truthy signedTx_rawTransaction of
             Some rawTx \<Rightarrow> transactSigned web3 rawTx (s\<lparr>world := w\<rparr>)
           | None \<Rightarrow> (Inl SigningFailed, s\<lparr>world := w\<rparr>)))"

text \<open>
  \<^verbatim>\<open>transactCactusKeychainRef\<close>: the first keychain plugin whose id is the request's
  \<^verbatim>\<open>keychainId\<close>; \<^verbatim>\<open>Checks.truthy\<close> throws when there is none.  Then the plugin's
  \<^verbatim>\<open>get\<close>, and \<^verbatim>\<open>transactPrivateKey\<close> on a new request that has the same
  transaction config, a PRIVATEKEYHEX credential with the same \<^verbatim>\<open>ethAccount\<close> and,
  as its secret, whatever \<^verbatim>\<open>get\<close> resolved with, and no other field.
\<close>

definition transactCactusKeychainRef ::
  "'w Web3 \<Rightarrow> RunTransactionRequest \<Rightarrow> 'w connector
    \<Rightarrow> (error + RunTransactionResponse) \<times> 'w connector"
where
  "transactCactusKeychainRef web3 req s =
     (let cred = web3SigningCredential req in
      case find (\<lambda>k. Some (getKeychainId k) = keychainId cred) (pluginRegistry s) of
        None \<Rightarrow> (Inl (KeychainNotFound (keychainId cred)), s)
      | Some keychainPlugin \<Rightarrow>
          (case get keychainPlugin (keychainEntryKey cred) (world s) of
             (Inl ex, w) \<Rightarrow> (Inl (CollaboratorError ex), s\<lparr>world := w\<rparr>)
           | (Inr privateKeyHex, w) \<Rightarrow>
               transactPrivateKey web3
                 \<lparr>transactionConfig = transactionConfig req,
                  web3SigningCredential =
                    \<lparr>cred_type = PRIVATEKEYHEX, ethAccount = ethAccount cred,
                     secret = privateKeyHex, keychainEntryKey = None,
                     keychainId = None\<rparr>,
                  timeoutMs = None\<rparr>
                 (s\<lparr>world := w\<rparr>)))"

text \<open>
  The \<^verbatim>\<open>do ... while\<close> loop of \<^verbatim>\<open>pollForTxReceipt\<close>.  It returns the values of
  \<^verbatim>\<open>txReceipt\<close> and \<^verbatim>\<open>tries\<close> at its exit, or the rejection of a fetch.  Nothing
  bounds the number of rounds but the clock, so the loop is a partial function:
  \<open>None\<close> is a run that never leaves it.
\<close>

partial_function (option) poll_loop ::
  "'w Web3 \<Rightarrow> string \<Rightarrow> int \<Rightarrow> int \<Rightarrow> nat \<Rightarrow> 'w
    \<Rightarrow> ((js_error + TransactionReceipt option \<times> nat) \<times> 'w) option"
where
  "poll_loop web3 txHash startedAt timeout_ms tries w =
     (case getTransactionReceipt web3 txHash w of
        (Inl ex, w') \<Rightarrow> Some (Inl ex, w')
      | (Inr txReceipt, w') \<Rightarrow>
          (if \<not> (now web3 w' \<ge> startedAt + timeout_ms) \<and> txReceipt = None
           then poll_loop web3 txHash startedAt timeout_ms (tries + 1) w'
           else Some (Inr (txReceipt, tries + 1), w')))"

declare poll_loop.simps [code]

text \<open>The world after one receipt fetch; \<open>n\<close> fetches in a row are its \<open>n\<close>-th iterate.\<close>

definition fetch_step :: "'w Web3 \<Rightarrow> string \<Rightarrow> 'w \<Rightarrow> 'w" where
  "fetch_step web3 txHash w = snd (getTransactionReceipt web3 txHash w)"

text \<open>
  \<^verbatim>\<open>pollForTxReceipt(txHash, timeoutMs = 60000)\<close>: the second argument is optional.
\<close>

definition pollForTxReceipt ::
  "'w Web3 \<Rightarrow> string \<Rightarrow> int option \<Rightarrow> 'w connector
    \<Rightarrow> ((error + TransactionReceipt) \<times> 'w connector) option"
where
  "pollForTxReceipt web3 txHash timeoutMs_arg s =
     (let timeout_ms = (case timeoutMs_arg of None \<Rightarrow> 60000 | Some t \<Rightarrow> t);
          startedAt = now web3 (world s)
      in case poll_loop web3 txHash startedAt timeout_ms 0 (world s) of
           None \<Rightarrow> None
         | Some (Inl ex, w) \<Rightarrow> Some (Inl (CollaboratorError ex), s\<lparr>world := w\<rparr>)
         | Some (Inr (None, tries), w) \<Rightarrow>
             Some (Inl (PollTimeout timeout_ms tries), s\<lparr>world := w\<rparr>)
         | Some (Inr (Some txReceipt, tries), w) \<Rightarrow> Some (Inr txReceipt, s\<lparr>world := w\<rparr>))"

text \<open>
  \<^verbatim>\<open>transactGethKeychain\<close>: the node signs and sends; the receipt is polled for with
  no second argument.  The \<^verbatim>\<open>try\<close> block holds both calls, and its \<^verbatim>\<open>catch\<close>
  throws a new error around whatever was caught.
\<close>

definition transactGethKeychain ::
  "'w Web3 \<Rightarrow> RunTransactionRequest \<Rightarrow> 'w connector
    \<Rightarrow> ((error + RunTransactionResponse) \<times> 'w connector) option"
where
  "transactGethKeychain web3 txIn s =
     (case personal_sendTransaction web3 (transactionConfig txIn)
             (secret (web3SigningCredential txIn)) (world s) of
        (Inl ex, w) \<Rightarrow> Some (Inl (RemoteSigningFailed (CollaboratorError ex)), s\<lparr>world := w\<rparr>)
      | (Inr txHash, w) \<Rightarrow>
          (case pollForTxReceipt web3 txHash None (s\<lparr>world := w\<rparr>) of
             None \<Rightarrow> None
           | Some (Inl ex, s') \<Rightarrow> Some (Inl (RemoteSigningFailed ex), s')
           | Some (Inr receipt, s') \<Rightarrow> Some (Inr \<lparr>transactionReceipt = receipt\<rparr>, s')))"

text \<open>\<^verbatim>\<open>transact\<close>: the \<^verbatim>\<open>switch\<close> on the credential's type.\<close>

definition transact ::
  "'w Web3 \<Rightarrow> RunTransactionRequest \<Rightarrow> 'w connector
    \<Rightarrow> ((error + RunTransactionResponse) \<times> 'w connector) option"
where
  "transact web3 req s =
     (case cred_type (web3SigningCredential req) of
        CACTUSKEYCHAINREF \<Rightarrow> Some (transactCactusKeychainRef web3 req s)
      | GETHKEYCHAINPASSWORD \<Rightarrow> transactGethKeychain web3 req s
      | PRIVATEKEYHEX \<Rightarrow> Some (transactPrivateKey web3 req s)
      | NONE \<Rightarrow>
          (case truthy (rawTransaction (transactionConfig req)) of
             Some rawTx \<Rightarrow> Some (transactSigned web3 rawTx s)
           | None \<Rightarrow> Some (Inl MissingRawTransaction, s))
      | Unrecognized tag \<Rightarrow> Some (Inl (UnsupportedCredentialType tag), s))"

section \<open>The routing table of the specification\<close>

text \<open>
  The table of the specification's section 4.1, in the specification's words: the tag
  alone determines a strategy, and a strategy is run on the request.  The dispatcher
  above is compared with it below.
\<close>

datatype strategy =
    KeychainIndirection
  | KeystorePassword
  | PrivateKey
  | PreSigned
  | Reject string

definition spec_route :: "Web3SigningCredentialType \<Rightarrow> strategy" where
  "spec_route tag =
     (case tag of
        NONE \<Rightarrow> PreSigned
      | PRIVATEKEYHEX \<Rightarrow> PrivateKey
      | GETHKEYCHAINPASSWORD \<Rightarrow> KeystorePassword
      | CACTUSKEYCHAINREF \<Rightarrow> KeychainIndirection
      | Unrecognized tag' \<Rightarrow> Reject tag')"

definition run_strategy ::
  "strategy \<Rightarrow> 'w Web3 \<Rightarrow> RunTransactionRequest \<Rightarrow> 'w connector
    \<Rightarrow> ((error + RunTransactionResponse) \<times> 'w connector) option"
where
  "run_strategy st web3 req s =
     (case st of
        KeychainIndirection \<Rightarrow> Some (transactCactusKeychainRef web3 req s)
      | KeystorePassword \<Rightarrow> transactGethKeychain web3 req s
      | PrivateKey \<Rightarrow> Some (transactPrivateKey web3 req s)
      | PreSigned \<Rightarrow>
          (case rawTransaction (transactionConfig req) of
             None \<Rightarrow> Some (Inl MissingRawTransaction, s)
           | Some rawTx \<Rightarrow>
               if rawTx = [] then Some (Inl MissingRawTransaction, s)
               else Some (transactSigned web3 rawTx s))
      | Reject tag \<Rightarrow> Some (Inl (UnsupportedCredentialType tag), s))"

section \<open>A simulated ledger for concrete runs\<close>

text \<open>
  The concrete runs below need collaborators.  The simulated world has a clock and a
  log of the calls made to the collaborators.  \<open>sim_web3 rtt mined_at\<close> is a node whose
  every round trip takes \<open>rtt\<close> milliseconds and that has the receipt of any
  transaction from clock time \<open>mined_at\<close> on (never, when \<open>mined_at\<close> is \<open>None\<close>):
  \<^item> a receipt fetch answers for the moment it is issued;
  \<^item> \<open>sendSignedTransaction\<close> resolves with the receipt once it is there, and rejects
    as the web3 client does when the transaction is never mined;
  \<^item> signing needs a key and yields a raw transaction that names the key.
\<close>

datatype call =
    Sign "string option"
  | Broadcast string
  | NodeSend
  | Fetch string
  | KeychainGet "string option"

record sim_world =
  clock :: int
  calls :: "call list"

definition sim_receipt :: TransactionReceipt where
  "sim_receipt = \<lparr>status = True, transactionHash = ''0xhash'', contractAddress = None\<rparr>"

definition sim_web3 :: "int \<Rightarrow> int option \<Rightarrow> sim_world Web3" where
  "sim_web3 rtt mined_at =
     \<lparr>sendSignedTransaction = (\<lambda>rawTx w.
        (case mined_at of
           None \<Rightarrow>
             (Inl ''Transaction was not mined within 750 seconds'',
              w\<lparr>clock := clock w + 750000, calls := calls w @ [Broadcast rawTx]\<rparr>)
         | Some t \<Rightarrow>
             (Inr (Inr sim_receipt),
              w\<lparr>clock := max (clock w + rtt) t, calls := calls w @ [Broadcast rawTx]\<rparr>))),
      personal_sendTransaction = (\<lambda>config password w.
        (Inr ''0xhash'', w\<lparr>clock := clock w + rtt, calls := calls w @ [NodeSend]\<rparr>)),
      signTransaction = (\<lambda>config key w.
        (case key of
           None \<Rightarrow> Inl ''No private key''
         | Some k \<Rightarrow> Inr (Some (''signed:'' @ k)),
         w\<lparr>calls := calls w @ [Sign key]\<rparr>)),
      getTransactionReceipt = (\<lambda>txHash w.
        (Inr (case mined_at of
                None \<Rightarrow> None
              | Some t \<Rightarrow> if t \<le> clock w then Some sim_receipt else None),
         w\<lparr>clock := clock w + rtt, calls := calls w @ [Fetch txHash]\<rparr>)),
      now = clock\<rparr>"

text \<open>A keychain plugin over a list of entries; a missing entry rejects.\<close>

definition sim_keychain :: "string \<Rightarrow> (string \<times> string) list \<Rightarrow> sim_world IPluginKeychain" where
  "sim_keychain kid entries =
     \<lparr>getKeychainId = kid,
      get = (\<lambda>key w.
        (case key of
           None \<Rightarrow> Inl ''key is undefined''
         | Some k \<Rightarrow>
             (case map_of entries k of
                None \<Rightarrow> Inl (k @ '' not found'')
              | Some v \<Rightarrow> Inr (Some v)),
         w\<lparr>calls := calls w @ [KeychainGet key]\<rparr>))\<rparr>"

definition sim_connector :: "sim_world connector" where
  "sim_connector =
     \<lparr>pluginRegistry = [sim_keychain ''kc1'' [], sim_keychain ''kc2'' [(''alice'', ''0xa11ce'')]],
      transactionCount = 7,
      world = \<lparr>clock = 1000, calls = []\<rparr>\<rparr>"

text \<open>
  A keychain plugin that keeps its entries in a map and resolves with what the map
  holds: \<^verbatim>\<open>undefined\<close> for a key that has no entry.  And a connector whose registry
  holds such a plugin.
\<close>

definition sim_memory_keychain ::
  "string \<Rightarrow> (string \<times> string) list \<Rightarrow> sim_world IPluginKeychain"
where
  "sim_memory_keychain kid entries =
     \<lparr>getKeychainId = kid,
      get = (\<lambda>key w.
        (case key of
           None \<Rightarrow> Inr None
         | Some k \<Rightarrow> Inr (map_of entries k),
         w\<lparr>calls := calls w @ [KeychainGet key]\<rparr>))\<rparr>"

definition sim_memory_connector :: "sim_world connector" where
  "sim_memory_connector =
     \<lparr>pluginRegistry = [sim_memory_keychain ''kc3'' [(''alice'', ''0xa11ce'')]],
      transactionCount = 7,
      world = \<lparr>clock = 1000, calls = []\<rparr>\<rparr>"

definition sim_config :: TransactionConfig where
  "sim_config =
     \<lparr>tx_from = None, tx_to = Some ''0xAbc'', tx_data = Some ''0x00'', tx_gas = None,
      tx_gasPrice = None, tx_value = None, tx_nonce = None, rawTransaction = None\<rparr>"

definition sim_request ::
  "Web3SigningCredentialType \<Rightarrow> string option \<Rightarrow> int option \<Rightarrow> RunTransactionRequest"
where
  "sim_request tag key t =
     \<lparr>transactionConfig = sim_config,
      web3SigningCredential =
        \<lparr>cred_type = tag, ethAccount = Some ''0x123'', secret = key,
         keychainEntryKey = Some ''alice'', keychainId = Some ''kc2''\<rparr>,
      timeoutMs = t\<rparr>"

text \<open>A request that refers to the entry \<open>entry\<close> of the keychain \<open>kid\<close>.\<close>

definition sim_keychain_request :: "string \<Rightarrow> string \<Rightarrow> RunTransactionRequest" where
  "sim_keychain_request kid entry =
     \<lparr>transactionConfig = sim_config,
      web3SigningCredential =
        \<lparr>cred_type = CACTUSKEYCHAINREF, ethAccount = Some ''0x123'', secret = None,
         keychainEntryKey = Some entry, keychainId = Some kid\<rparr>,
      timeoutMs = None\<rparr>"

text \<open>
  Two variants of the node: a signer whose signed transaction has an empty
  \<^verbatim>\<open>rawTransaction\<close>, and a node that rejects \<^verbatim>\<open>personal.sendTransaction\<close>.
\<close>

definition sim_blank_signer :: "sim_world Web3" where
  "sim_blank_signer =
     (sim_web3 10 (Some 1050))\<lparr>signTransaction := (\<lambda>config key w.
        (Inr (Some ''''), w\<lparr>calls := calls w @ [Sign key]\<rparr>))\<rparr>"

definition sim_rejecting_node :: "sim_world Web3" where
  "sim_rejecting_node =
     (sim_web3 10 (Some 1050))\<lparr>personal_sendTransaction := (\<lambda>config password w.
        (Inl ''could not decrypt key with given password'',
         w\<lparr>clock := clock w + 10, calls := calls w @ [NodeSend]\<rparr>))\<rparr>"

text \<open>What a run leaves behind, the transaction counter apart.\<close>

definition without_counter :: "'a \<times> 'w connector \<Rightarrow> 'a \<times> 'w IPluginKeychain list \<times> 'w" where
  "without_counter out = (fst out, pluginRegistry (snd out), world (snd out))"

section \<open>The receipt poller\<close>

text \<open>
  Whenever the loop is left, \<open>tries\<close> has grown, and the world is the one that as many
  fetches as \<open>tries\<close> grew by lead to.
\<close>

lemma poll_loop_exit_aux:
  assumes "poll_loop web3 txHash startedAt timeout_ms tries w = Some y"
  shows "\<forall>r n w'. y = (Inr (r, n), w') \<longrightarrow>
        tries < n \<and> w' = (fetch_step web3 txHash ^^ (n - tries)) w"
proof (rule poll_loop.raw_induct
    [where P = "\<lambda>web3 txHash startedAt timeout_ms tries w y. \<forall>r n w'. y = (Inr (r, n), w') \<longrightarrow>
        tries < n \<and> w' = (fetch_step web3 txHash ^^ (n - tries)) w", OF _ assms])
  fix loop :: "'a Web3 \<Rightarrow> string \<Rightarrow> int \<Rightarrow> int \<Rightarrow> nat \<Rightarrow> 'a
    \<Rightarrow> ((js_error + TransactionReceipt option \<times> nat) \<times> 'a) option"
  fix web3 txHash startedAt timeout_ms tries w y
  assume IH: "\<And>web3 txHash startedAt timeout_ms tries w y.
      loop web3 txHash startedAt timeout_ms tries w = Some y \<Longrightarrow>
      \<forall>r n w'. y = (Inr (r, n), w') \<longrightarrow>
        tries < n \<and> w' = (fetch_step web3 txHash ^^ (n - tries)) w"
    and body: "(case getTransactionReceipt web3 txHash w of
        (Inl ex, w') \<Rightarrow> Some (Inl ex, w')
      | (Inr txReceipt, w') \<Rightarrow>
          if \<not> startedAt + timeout_ms \<le> now web3 w' \<and> txReceipt = None
          then loop web3 txHash startedAt timeout_ms (tries + 1) w'
          else Some (Inr (txReceipt, tries + 1), w')) = Some y"
  obtain res w1 where f: "getTransactionReceipt web3 txHash w = (res, w1)"
    by (cases "getTransactionReceipt web3 txHash w")
  show "\<forall>r n w'. y = (Inr (r, n), w') \<longrightarrow>
        tries < n \<and> w' = (fetch_step web3 txHash ^^ (n - tries)) w"
  proof (cases res)
    case (Inl ex)
    with body f show ?thesis by auto
  next
    case (Inr txReceipt)
    show ?thesis
    proof (cases "\<not> (now web3 w1 \<ge> startedAt + timeout_ms) \<and> txReceipt = None")
      case True
      with body f Inr have "loop web3 txHash startedAt timeout_ms (tries + 1) w1 = Some y"
        by simp
      from IH[OF this] have ih: "\<forall>r n w'. y = (Inr (r, n), w') \<longrightarrow>
          tries + 1 < n \<and> w' = (fetch_step web3 txHash ^^ (n - (tries + 1))) w1" .
      show ?thesis
      proof (intro allI impI)
        fix r n w' assume y: "y = (Inr (r, n), w')"
        with ih have lt: "tries + 1 < n"
          and w': "w' = (fetch_step web3 txHash ^^ (n - (tries + 1))) w1"
          by simp_all
        have "n - tries = Suc (n - (tries + 1))" using lt by simp
        then show "tries < n \<and> w' = (fetch_step web3 txHash ^^ (n - tries)) w"
          using lt w' f by (simp add: fetch_step_def funpow_swap1)
      qed
    next
      case False
      with body f Inr have "y = (Inr (txReceipt, tries + 1), w1)" by (auto split: if_splits)
      then show ?thesis using f by (simp add: fetch_step_def)
    qed
  qed
qed

lemma poll_loop_exit:
  assumes "poll_loop web3 txHash startedAt timeout_ms tries w = Some (Inr (r, n), w')"
  shows "tries < n \<and> w' = (fetch_step web3 txHash ^^ (n - tries)) w"
  using poll_loop_exit_aux[OF assms] by simp

text \<open>Rounds that fetch nothing and end before the deadline only move the loop on.\<close>

lemma poll_loop_unroll:
  assumes "\<forall>i<n. getTransactionReceipt web3 txHash (W i) = (Inr None, W (Suc i))
                 \<and> now web3 (W (Suc i)) < startedAt + timeout_ms"
  shows "poll_loop web3 txHash startedAt timeout_ms tries (W 0)
       = poll_loop web3 txHash startedAt timeout_ms (tries + n) (W n)"
  using assms
proof (induction n)
  case 0
  then show ?case by simp
next
  case (Suc n)
  then have "poll_loop web3 txHash startedAt timeout_ms tries (W 0)
       = poll_loop web3 txHash startedAt timeout_ms (tries + n) (W n)" by simp
  also have "\<dots> = poll_loop web3 txHash startedAt timeout_ms (tries + Suc n) (W (Suc n))"
  proof -
    from Suc.prems have "getTransactionReceipt web3 txHash (W n) = (Inr None, W (Suc n))"
      and "now web3 (W (Suc n)) < startedAt + timeout_ms" by simp_all
    then show ?thesis by (subst poll_loop.simps) simp
  qed
  finally show ?case .
qed

lemma poll_loop_receipt:
  assumes "getTransactionReceipt web3 txHash w = (Inr (Some r), w')"
  shows "poll_loop web3 txHash startedAt timeout_ms tries w = Some (Inr (Some r, tries + 1), w')"
  using assms by (subst poll_loop.simps) simp

lemma poll_loop_timed_out:
  assumes "getTransactionReceipt web3 txHash w = (Inr None, w')"
    and "startedAt + timeout_ms \<le> now web3 w'"
  shows "poll_loop web3 txHash startedAt timeout_ms tries w = Some (Inr (None, tries + 1), w')"
  using assms by (subst poll_loop.simps) simp

lemma poll_loop_rejected:
  assumes "getTransactionReceipt web3 txHash w = (Inl ex, w')"
  shows "poll_loop web3 txHash startedAt timeout_ms tries w = Some (Inl ex, w')"
  using assms by (subst poll_loop.simps) simp

text \<open>
  With a clock that every fetch advances, the loop is left.  With a receipt that is
  there from \<open>t\<close> ms after \<open>startedAt\<close> on, and fetches that answer for the moment they
  are issued and take at most \<open>L\<close> ms, the loop is left with the receipt when \<open>t + L\<close>
  is within the timeout, and without it when \<open>t\<close> is not and the fetch is issued
  before \<open>t\<close>.
\<close>

lemma poll_loop_returns:
  assumes adv: "\<forall>w. now web3 w < now web3 (fetch_step web3 txHash w)"
  shows "\<exists>out. poll_loop web3 txHash startedAt timeout_ms tries w = Some out"
proof (induction "nat (startedAt + timeout_ms - now web3 w)" arbitrary: w tries rule: less_induct)
  case less
  obtain res w1 where f: "getTransactionReceipt web3 txHash w = (res, w1)"
    by (cases "getTransactionReceipt web3 txHash w")
  then have w1: "w1 = fetch_step web3 txHash w" by (simp add: fetch_step_def)
  show ?case
  proof (cases res)
    case (Inl ex)
    with f show ?thesis by (simp add: poll_loop_rejected)
  next
    case (Inr txReceipt)
    show ?thesis
    proof (cases "\<not> (now web3 w1 \<ge> startedAt + timeout_ms) \<and> txReceipt = None")
      case True
      from adv w1 have "now web3 w < now web3 w1" by simp
      with True have "nat (startedAt + timeout_ms - now web3 w1)
          < nat (startedAt + timeout_ms - now web3 w)" by simp
      from less[OF this, of "tries + 1"] obtain out
        where "poll_loop web3 txHash startedAt timeout_ms (tries + 1) w1 = Some out" ..
      with f Inr True show ?thesis by (subst poll_loop.simps) simp
    next
      case False
      with f Inr show ?thesis by (subst poll_loop.simps) auto
    qed
  qed
qed

lemma poll_loop_receipt_in_time:
  assumes model: "\<forall>w. \<exists>w'. getTransactionReceipt web3 txHash w
             = (Inr (if startedAt + t \<le> now web3 w then Some r else None), w')
           \<and> now web3 w < now web3 w' \<and> now web3 w' \<le> now web3 w + L"
    and slack: "t + L \<le> timeout_ms"
  shows "\<exists>n w'. poll_loop web3 txHash startedAt timeout_ms tries w = Some (Inr (Some r, n), w')"
proof (induction "nat (startedAt + t - now web3 w)" arbitrary: w tries rule: less_induct)
  case less
  from model obtain w1 where f: "getTransactionReceipt web3 txHash w
             = (Inr (if startedAt + t \<le> now web3 w then Some r else None), w1)"
    and lt: "now web3 w < now web3 w1" and le: "now web3 w1 \<le> now web3 w + L"
    by blast
  show ?case
  proof (cases "startedAt + t \<le> now web3 w")
    case True
    with f show ?thesis by (simp add: poll_loop_receipt)
  next
    case False
    with le slack have notyet: "\<not> (startedAt + timeout_ms \<le> now web3 w1)" by simp
    from False lt have "nat (startedAt + t - now web3 w1) < nat (startedAt + t - now web3 w)"
      by simp
    from less[OF this, of "tries + 1"] obtain n w' where
      "poll_loop web3 txHash startedAt timeout_ms (tries + 1) w1 = Some (Inr (Some r, n), w')"
      by blast
    with f False notyet show ?thesis by (subst poll_loop.simps) simp
  qed
qed

lemma poll_loop_too_late:
  assumes model: "\<forall>w. \<exists>w'. getTransactionReceipt web3 txHash w
             = (Inr (if startedAt + t \<le> now web3 w then Some r else None), w')
           \<and> now web3 w < now web3 w' \<and> now web3 w' \<le> now web3 w + L"
    and late: "timeout_ms \<le> t"
    and before: "now web3 w < startedAt + t"
  shows "\<exists>n w'. poll_loop web3 txHash startedAt timeout_ms tries w = Some (Inr (None, n), w')"
  using before
proof (induction "nat (startedAt + timeout_ms - now web3 w)" arbitrary: w tries rule: less_induct)
  case less
  from model obtain w1 where f0: "getTransactionReceipt web3 txHash w
             = (Inr (if startedAt + t \<le> now web3 w then Some r else None), w1)"
    and lt: "now web3 w < now web3 w1"
    by blast
  with less.prems have f: "getTransactionReceipt web3 txHash w = (Inr None, w1)" by simp
  show ?case
  proof (cases "startedAt + timeout_ms \<le> now web3 w1")
    case True
    with f show ?thesis by (simp add: poll_loop_timed_out)
  next
    case False
    with lt have "nat (startedAt + timeout_ms - now web3 w1)
        < nat (startedAt + timeout_ms - now web3 w)" by simp
    moreover from False late have "now web3 w1 < startedAt + t" by simp
    ultimately obtain n w' where
      "poll_loop web3 txHash startedAt timeout_ms (tries + 1) w1 = Some (Inr (None, n), w')"
      using less.hyps[of w1 "tries + 1"] by blast
    with f False show ?thesis by (subst poll_loop.simps) simp
  qed
qed

text \<open>
  Claim C2, as amended.  Take an execution in which the node has the receipt \<open>r\<close> from
  \<open>t\<close> ms after the start of the poller on, and in which every fetch answers for the
  moment it is issued and takes more than 0 and at most \<open>L\<close> ms.
  \<^item> If the receipt is there at the first fetch (\<open>t \<le> 0\<close>), or becomes available a
    round trip before the deadline (\<open>t + L \<le> timeoutMs\<close>), the poller returns it.
  \<^item> If \<open>0 < t\<close> and \<open>t \<ge> timeoutMs\<close>, the poller fails with \<open>PollTimeout\<close>, which
    reports \<open>timeoutMs\<close> and at least one attempt.
  \<^item> On any attempt, a fetch that returns null and ends at or past the deadline ends the
    loop without a receipt and without another fetch.
  Nothing is said of a receipt that becomes available less than a round trip before
  the deadline: the claim's \<open>t < timeoutMs\<close> is not enough, and its \<open>t \<ge> timeoutMs\<close>
  is too much when the first fetch already finds the receipt.
\<close>

theorem pollForTxReceipt_by_availability:
  assumes "\<forall>w. \<exists>w'. getTransactionReceipt web3 txHash w
             = (Inr (if now web3 (world s) + t \<le> now web3 w then Some r else None), w')
           \<and> now web3 w < now web3 w' \<and> now web3 w' \<le> now web3 w + L"
  shows "(t \<le> 0 \<or> t + L \<le> timeout_ms \<longrightarrow>
            (\<exists>s'. pollForTxReceipt web3 txHash (Some timeout_ms) s = Some (Inr r, s')))
       \<and> (0 < t \<and> timeout_ms \<le> t \<longrightarrow>
            (\<exists>n s'. pollForTxReceipt web3 txHash (Some timeout_ms) s
                       = Some (Inl (PollTimeout timeout_ms n), s') \<and> 1 \<le> n))
       \<and> (\<forall>tries w w'.
            getTransactionReceipt web3 txHash w = (Inr None, w')
            \<and> now web3 (world s) + timeout_ms \<le> now web3 w'
            \<longrightarrow> poll_loop web3 txHash (now web3 (world s)) timeout_ms tries w
                  = Some (Inr (None, tries + 1), w'))"
proof (intro conjI impI allI)
  assume "t \<le> 0 \<or> t + L \<le> timeout_ms"
  then show "\<exists>s'. pollForTxReceipt web3 txHash (Some timeout_ms) s = Some (Inr r, s')"
  proof
    assume "t \<le> 0"
    with assms obtain w' where
      "getTransactionReceipt web3 txHash (world s) = (Inr (Some r), w')"
      by (metis add.commute add_le_same_cancel2)
    then show ?thesis
      by (simp add: pollForTxReceipt_def poll_loop_receipt)
  next
    assume "t + L \<le> timeout_ms"
    from poll_loop_receipt_in_time[OF assms this, of 0 "world s"] obtain n w' where
      "poll_loop web3 txHash (now web3 (world s)) timeout_ms 0 (world s)
         = Some (Inr (Some r, n), w')" by blast
    then show ?thesis by (simp add: pollForTxReceipt_def)
  qed
next
  assume late: "0 < t \<and> timeout_ms \<le> t"
  then have "now web3 (world s) < now web3 (world s) + t" by simp
  from poll_loop_too_late[OF assms _ this, of timeout_ms 0] late obtain n w' where
    loop: "poll_loop web3 txHash (now web3 (world s)) timeout_ms 0 (world s)
         = Some (Inr (None, n), w')" by blast
  from poll_loop_exit[OF this] have "1 \<le> n" by simp
  with loop show "\<exists>n s'. pollForTxReceipt web3 txHash (Some timeout_ms) s
                       = Some (Inl (PollTimeout timeout_ms n), s') \<and> 1 \<le> n"
    by (simp add: pollForTxReceipt_def)
next
  fix tries w w'
  assume "getTransactionReceipt web3 txHash w = (Inr None, w')
            \<and> now web3 (world s) + timeout_ms \<le> now web3 w'"
  then show "poll_loop web3 txHash (now web3 (world s)) timeout_ms tries w
                  = Some (Inr (None, tries + 1), w')"
    by (simp add: poll_loop_timed_out)
qed

text \<open>
  The poller starts at clock time 1000 with a timeout of 100 ms, and a round trip takes
  10 ms.  A receipt that is there 50 ms after the start is returned; one that is there
  100 ms after the start is not.  And a null fetch that ends at 1100 ends the loop.
\<close>

theorem pollForTxReceipt_by_availability_witness:
  "(\<exists>s'. pollForTxReceipt (sim_web3 10 (Some (1000 + 50))) ''0xhash'' (Some 100) sim_connector
            = Some (Inr sim_receipt, s'))
   \<and> (\<exists>n s'. pollForTxReceipt (sim_web3 10 (Some (1000 + 100))) ''0xhash'' (Some 100)
                sim_connector
            = Some (Inl (PollTimeout 100 n), s') \<and> 1 \<le> n)
   \<and> poll_loop (sim_web3 10 (Some (1000 + 100))) ''0xhash'' 1000 100 9
         \<lparr>clock = 1090, calls = []\<rparr>
       = Some (Inr (None, 10), \<lparr>clock = 1100, calls = [Fetch ''0xhash'']\<rparr>)"
proof -
  have m: "\<forall>w. \<exists>w'. getTransactionReceipt (sim_web3 10 (Some (1000 + t))) ''0xhash'' w
             = (Inr (if now (sim_web3 10 (Some (1000 + t))) (world sim_connector) + t
                          \<le> now (sim_web3 10 (Some (1000 + t))) w
                     then Some sim_receipt else None), w')
           \<and> now (sim_web3 10 (Some (1000 + t))) w < now (sim_web3 10 (Some (1000 + t))) w'
           \<and> now (sim_web3 10 (Some (1000 + t))) w'
                \<le> now (sim_web3 10 (Some (1000 + t))) w + 10"
    for t
    by (simp add: sim_web3_def sim_connector_def)
  have start: "now (sim_web3 10 (Some (1000 + 100))) (world sim_connector) = 1000"
    by (simp add: sim_web3_def sim_connector_def)
  have fetch: "getTransactionReceipt (sim_web3 10 (Some (1000 + 100))) ''0xhash''
        \<lparr>clock = 1090, calls = []\<rparr>
      = (Inr None, \<lparr>clock = 1100, calls = [Fetch ''0xhash'']\<rparr>)
    \<and> now (sim_web3 10 (Some (1000 + 100))) (world sim_connector) + 100
        \<le> now (sim_web3 10 (Some (1000 + 100))) \<lparr>clock = 1100, calls = [Fetch ''0xhash'']\<rparr>"
    by (simp add: sim_web3_def sim_connector_def)
  from pollForTxReceipt_by_availability[OF m[of 100], of 100]
  have "poll_loop (sim_web3 10 (Some (1000 + 100))) ''0xhash''
          (now (sim_web3 10 (Some (1000 + 100))) (world sim_connector)) 100 9
          \<lparr>clock = 1090, calls = []\<rparr>
       = Some (Inr (None, 9 + 1), \<lparr>clock = 1100, calls = [Fetch ''0xhash'']\<rparr>)"
    using fetch by blast
  with pollForTxReceipt_by_availability[OF m[of 50], of 100]
    pollForTxReceipt_by_availability[OF m[of 100], of 100] start
  show ?thesis by simp
qed

text \<open>
  The claim as stated fails both ways.  The poller starts at clock time 1000.  In the
  first run the receipt is available 50 ms later and the timeout is 100 ms, but the one
  fetch, issued before the receipt is there, takes 200 ms: the poller times out although
  \<open>t < timeoutMs\<close>.  In the second run the timeout is 0 and the receipt is available
  at once: the poller returns it although \<open>t \<ge> timeoutMs\<close>.
\<close>

theorem pollForTxReceipt_deadline_counterexample:
  "pollForTxReceipt (sim_web3 200 (Some (1000 + 50))) ''0xhash'' (Some 100) sim_connector
     = Some (Inl (PollTimeout 100 1),
         sim_connector\<lparr>world := \<lparr>clock = 1200, calls = [Fetch ''0xhash'']\<rparr>\<rparr>)
   \<and> pollForTxReceipt (sim_web3 10 (Some (1000 + 0))) ''0xhash'' (Some 0) sim_connector
     = Some (Inr sim_receipt,
         sim_connector\<lparr>world := \<lparr>clock = 1010, calls = [Fetch ''0xhash'']\<rparr>\<rparr>)"
  by (simp add: pollForTxReceipt_def poll_loop.simps sim_web3_def sim_connector_def)



text \<open>
  The poller, attempt by attempt, for any collaborators.  Let the worlds \<open>W 0\<close>,
  \<open>W 1\<close>, ... be those that the successive fetches lead through, starting at the
  world of the call.  If the first \<open>n\<close> fetches return null and each is followed by a
  clock reading before \<open>startedAt + timeoutMs\<close>, then attempt \<open>n + 1\<close> decides: a
  receipt that it fetches is returned, whatever the clock says after it; a null
  followed by a clock reading at or past the deadline is a timeout that reports
  \<open>timeoutMs\<close> and \<open>n + 1\<close> attempts.  In both cases the poller returns.
\<close>

theorem pollForTxReceipt_first_decisive_attempt:
  assumes start: "W 0 = world s"
    and before: "\<forall>i<n. getTransactionReceipt web3 txHash (W i) = (Inr None, W (Suc i))
                 \<and> now web3 (W (Suc i)) < now web3 (world s) + t"
    and last: "getTransactionReceipt web3 txHash (W n) = (Inr res, W (Suc n))"
  shows "(\<forall>r. res = Some r \<longrightarrow>
            pollForTxReceipt web3 txHash (Some t) s = Some (Inr r, s\<lparr>world := W (Suc n)\<rparr>))
       \<and> (res = None \<and> now web3 (world s) + t \<le> now web3 (W (Suc n)) \<longrightarrow>
            pollForTxReceipt web3 txHash (Some t) s
              = Some (Inl (PollTimeout t (Suc n)), s\<lparr>world := W (Suc n)\<rparr>))"
proof -
  have unroll: "poll_loop web3 txHash (now web3 (world s)) t 0 (world s)
       = poll_loop web3 txHash (now web3 (world s)) t n (W n)"
    using poll_loop_unroll[OF before, of 0] start by simp
  show ?thesis
  proof (intro conjI allI impI)
    fix r assume "res = Some r"
    with last have "poll_loop web3 txHash (now web3 (world s)) t n (W n)
        = Some (Inr (Some r, n + 1), W (Suc n))"
      by (simp add: poll_loop_receipt)
    with unroll show "pollForTxReceipt web3 txHash (Some t) s
        = Some (Inr r, s\<lparr>world := W (Suc n)\<rparr>)"
      by (simp add: pollForTxReceipt_def)
  next
    assume "res = None \<and> now web3 (world s) + t \<le> now web3 (W (Suc n))"
    with last have "poll_loop web3 txHash (now web3 (world s)) t n (W n)
        = Some (Inr (None, n + 1), W (Suc n))"
      by (simp add: poll_loop_timed_out)
    with unroll show "pollForTxReceipt web3 txHash (Some t) s
        = Some (Inl (PollTimeout t (Suc n)), s\<lparr>world := W (Suc n)\<rparr>)"
      by (simp add: pollForTxReceipt_def)
  qed
qed

text \<open>
  Two runs from clock time 1000 with a timeout of 100 ms.  With round trips of 10 ms and
  the receipt there from 1025 on, the fourth fetch returns it.  With round trips of
  40 ms and no receipt, the third null fetch ends at 1120 and the poller times out.
\<close>

theorem pollForTxReceipt_first_decisive_attempt_witness:
  "pollForTxReceipt (sim_web3 10 (Some 1025)) ''0xhash'' (Some 100) sim_connector
     = Some (Inr sim_receipt,
         sim_connector\<lparr>world := \<lparr>clock = 1040, calls = replicate 4 (Fetch ''0xhash'')\<rparr>\<rparr>)
   \<and> pollForTxReceipt (sim_web3 40 None) ''0xhash'' (Some 100) sim_connector
     = Some (Inl (PollTimeout 100 3),
         sim_connector\<lparr>world := \<lparr>clock = 1120, calls = replicate 3 (Fetch ''0xhash'')\<rparr>\<rparr>)"
proof -
  define W :: "int \<Rightarrow> nat \<Rightarrow> sim_world"
    where "W d i = \<lparr>clock = 1000 + d * int i, calls = replicate i (Fetch ''0xhash'')\<rparr>" for d i
  have step: "replicate i c @ [c] = c # replicate i c" for i and c :: call
    by (simp add: replicate_append_same)
  have a: "W 10 0 = world sim_connector"
    by (simp add: W_def sim_connector_def)
  have b: "\<forall>i<3. getTransactionReceipt (sim_web3 10 (Some 1025)) ''0xhash'' (W 10 i)
                = (Inr None, W 10 (Suc i))
              \<and> now (sim_web3 10 (Some 1025)) (W 10 (Suc i))
                  < now (sim_web3 10 (Some 1025)) (world sim_connector) + 100"
    by (simp add: W_def sim_web3_def sim_connector_def step less_Suc_eq numeral_3_eq_3)
  have c: "getTransactionReceipt (sim_web3 10 (Some 1025)) ''0xhash'' (W 10 3)
             = (Inr (Some sim_receipt), W 10 (Suc 3))"
    by (simp add: W_def sim_web3_def step numeral_eq_Suc)
  have a': "W 40 0 = world sim_connector"
    by (simp add: W_def sim_connector_def)
  have b': "\<forall>i<2. getTransactionReceipt (sim_web3 40 None) ''0xhash'' (W 40 i)
                = (Inr None, W 40 (Suc i))
              \<and> now (sim_web3 40 None) (W 40 (Suc i))
                  < now (sim_web3 40 None) (world sim_connector) + 100"
    by (simp add: W_def sim_web3_def sim_connector_def step less_Suc_eq numeral_2_eq_2)
  have c': "getTransactionReceipt (sim_web3 40 None) ''0xhash'' (W 40 2)
             = (Inr None, W 40 (Suc 2))"
    by (simp add: W_def sim_web3_def step numeral_eq_Suc)
  have d': "now (sim_web3 40 None) (world sim_connector) + 100
              \<le> now (sim_web3 40 None) (W 40 (Suc 2))"
    by (simp add: W_def sim_web3_def sim_connector_def)
  show ?thesis
    using pollForTxReceipt_first_decisive_attempt [OF a b c]
      pollForTxReceipt_first_decisive_attempt [OF a' b' c'] d'
    by (simp add: W_def numeral_eq_Suc)
qed

section \<open>The dispatcher\<close>

text \<open>
  Claim C1.  The dispatcher is the routing table of the specification: the strategy it
  runs is a function of the credential's tag alone (\<open>spec_route\<close>), each of the four
  tags has the strategy that the table gives it, and any other tag is rejected with
  \<open>UnsupportedCredentialType\<close>.
\<close>

theorem transact_routes_by_credential_type:
  "transact web3 req s
     = run_strategy (spec_route (cred_type (web3SigningCredential req))) web3 req s"
  by (simp add: transact_def run_strategy_def spec_route_def truthy_def
      split: Web3SigningCredentialType.splits option.splits)

text \<open>One request for each tag, and a fifth tag.\<close>

theorem transact_routes_by_credential_type_witness:
  "transact (sim_web3 10 (Some 1050)) (sim_request CACTUSKEYCHAINREF None (Some 5000)) sim_connector
     = Some (transactCactusKeychainRef (sim_web3 10 (Some 1050))
               (sim_request CACTUSKEYCHAINREF None (Some 5000)) sim_connector)
   \<and> transact (sim_web3 10 (Some 1050)) (sim_request GETHKEYCHAINPASSWORD (Some ''pw'') None)
       sim_connector
     = transactGethKeychain (sim_web3 10 (Some 1050))
               (sim_request GETHKEYCHAINPASSWORD (Some ''pw'') None) sim_connector
   \<and> transact (sim_web3 10 (Some 1050)) (sim_request PRIVATEKEYHEX (Some ''0xa11ce'') None)
       sim_connector
     = Some (transactPrivateKey (sim_web3 10 (Some 1050))
               (sim_request PRIVATEKEYHEX (Some ''0xa11ce'') None) sim_connector)
   \<and> transact (sim_web3 10 (Some 1050)) (sim_request NONE None None) sim_connector
     = Some (Inl MissingRawTransaction, sim_connector)
   \<and> transact (sim_web3 10 (Some 1050)) (sim_request (Unrecognized ''LEDGER'') None None)
       sim_connector
     = Some (Inl (UnsupportedCredentialType ''LEDGER''), sim_connector)"
  using transact_routes_by_credential_type
          [of "sim_web3 10 (Some 1050)" "sim_request CACTUSKEYCHAINREF None (Some 5000)"
              sim_connector]
        transact_routes_by_credential_type
          [of "sim_web3 10 (Some 1050)" "sim_request GETHKEYCHAINPASSWORD (Some ''pw'') None"
              sim_connector]
        transact_routes_by_credential_type
          [of "sim_web3 10 (Some 1050)" "sim_request PRIVATEKEYHEX (Some ''0xa11ce'') None"
              sim_connector]
        transact_routes_by_credential_type
          [of "sim_web3 10 (Some 1050)" "sim_request NONE None None" sim_connector]
        transact_routes_by_credential_type
          [of "sim_web3 10 (Some 1050)" "sim_request (Unrecognized ''LEDGER'') None None"
              sim_connector]
  by (simp add: run_strategy_def spec_route_def sim_request_def sim_config_def)

text \<open>
  Claim C5.  A request with the tag NONE and no raw transaction fails with
  \<open>MissingRawTransaction\<close>, whatever its other fields, whatever the collaborators
  would do and in whatever state: the state is returned as it was, so no collaborator
  was called, and nothing was broadcast.
\<close>

theorem transact_none_without_raw_transaction:
  assumes "cred_type (web3SigningCredential req) = NONE"
    and "rawTransaction (transactionConfig req) = None"
  shows "transact web3 req s = Some (Inl MissingRawTransaction, s)"
  using assms by (simp add: transact_def truthy_def)

theorem transact_none_without_raw_transaction_witness:
  "transact (sim_web3 10 (Some 1050)) (sim_request NONE (Some ''0xa11ce'') (Some 5000))
       sim_connector
     = Some (Inl MissingRawTransaction, sim_connector)
   \<and> calls (world sim_connector) = []"
  using transact_none_without_raw_transaction
          [of "sim_request NONE (Some ''0xa11ce'') (Some 5000)" "sim_web3 10 (Some 1050)"
              sim_connector]
  by (simp add: sim_request_def sim_config_def sim_connector_def)

text \<open>
  Claim C10.  Two requests that differ at most in \<open>timeoutMs\<close> have the same result when
  the tag is PRIVATEKEYHEX, NONE or CACTUSKEYCHAINREF.
\<close>

theorem transact_ignores_timeoutMs:
  assumes "cred_type (web3SigningCredential req) \<in> {PRIVATEKEYHEX, NONE, CACTUSKEYCHAINREF}"
    and "transactionConfig req' = transactionConfig req"
    and "web3SigningCredential req' = web3SigningCredential req"
  shows "transact web3 req' s = transact web3 req s"
  using assms
  by (auto simp add: transact_def transactPrivateKey_def transactCactusKeychainRef_def Let_def
      split: option.splits prod.splits sum.splits)

theorem transact_ignores_timeoutMs_witness:
  "transact (sim_web3 10 (Some 1050)) (sim_request PRIVATEKEYHEX (Some ''0xa11ce'') (Some 1))
       sim_connector
     = transact (sim_web3 10 (Some 1050)) (sim_request PRIVATEKEYHEX (Some ''0xa11ce'') (Some 5000))
         sim_connector
   \<and> timeoutMs (sim_request PRIVATEKEYHEX (Some ''0xa11ce'') (Some 1))
       \<noteq> timeoutMs (sim_request PRIVATEKEYHEX (Some ''0xa11ce'') (Some 5000))"
  using transact_ignores_timeoutMs
          [of "sim_request PRIVATEKEYHEX (Some ''0xa11ce'') (Some 5000)"
              "sim_request PRIVATEKEYHEX (Some ''0xa11ce'') (Some 1)" "sim_web3 10 (Some 1050)"
              sim_connector]
  by (simp add: sim_request_def)

text \<open>Each strategy reads the transaction config and the credential, and nothing else.\<close>

lemma transactPrivateKey_reads:
  assumes "transactionConfig req' = transactionConfig req"
    and "secret (web3SigningCredential req') = secret (web3SigningCredential req)"
  shows "transactPrivateKey web3 req' s = transactPrivateKey web3 req s"
  using assms by (simp add: transactPrivateKey_def)

lemma transactCactusKeychainRef_reads:
  assumes "transactionConfig req' = transactionConfig req"
    and "web3SigningCredential req' = web3SigningCredential req"
  shows "transactCactusKeychainRef web3 req' s = transactCactusKeychainRef web3 req s"
  unfolding transactCactusKeychainRef_def assms ..

lemma transactGethKeychain_reads:
  assumes "transactionConfig req' = transactionConfig req"
    and "secret (web3SigningCredential req') = secret (web3SigningCredential req)"
  shows "transactGethKeychain web3 req' s = transactGethKeychain web3 req s"
  using assms by (simp add: transactGethKeychain_def)

text \<open>
  The request's \<open>timeoutMs\<close> is read on no path, GETHKEYCHAINPASSWORD included: two
  requests with the same transaction config and credential have the same result,
  whatever their tag.  The poller of the GETHKEYCHAINPASSWORD path is called without a
  timeout and so waits for its default of 60000 ms.
\<close>

theorem transact_never_reads_timeoutMs:
  assumes "transactionConfig req' = transactionConfig req"
    and "web3SigningCredential req' = web3SigningCredential req"
  shows "transact web3 req' s = transact web3 req s"
  unfolding transact_def
    transactPrivateKey_reads[of req' req, OF assms(1) arg_cong[OF assms(2)]]
    transactCactusKeychainRef_reads[OF assms]
    transactGethKeychain_reads[of req' req, OF assms(1) arg_cong[OF assms(2)]] assms ..

text \<open>
  A GETHKEYCHAINPASSWORD request with a timeout of 1 ms and one with 5000 ms, on a
  node that never has a receipt: both wait for 60000 ms.
\<close>

theorem transact_never_reads_timeoutMs_witness:
  "transact (sim_web3 25000 None) (sim_request GETHKEYCHAINPASSWORD (Some ''pw'') (Some 1))
       sim_connector
     = Some (Inl (RemoteSigningFailed (PollTimeout 60000 3)),
         sim_connector\<lparr>world := \<lparr>clock = 101000,
            calls = [NodeSend, Fetch ''0xhash'', Fetch ''0xhash'', Fetch ''0xhash'']\<rparr>\<rparr>)"
proof -
  have "transactionConfig (sim_request GETHKEYCHAINPASSWORD (Some ''pw'') (Some 1))
          = transactionConfig (sim_request GETHKEYCHAINPASSWORD (Some ''pw'') (Some 5000))"
    and "web3SigningCredential (sim_request GETHKEYCHAINPASSWORD (Some ''pw'') (Some 1))
          = web3SigningCredential (sim_request GETHKEYCHAINPASSWORD (Some ''pw'') (Some 5000))"
    by (simp_all add: sim_request_def)
  from transact_never_reads_timeoutMs[OF this, of "sim_web3 25000 None" sim_connector]
  show ?thesis
    by (simp add: transact_def transactGethKeychain_def pollForTxReceipt_def poll_loop.simps
        sim_web3_def sim_request_def sim_connector_def)
qed

section \<open>The keychain indirection\<close>

text \<open>
  Claim C3.  When the keychain plugin that the request refers to resolves the entry to
  the key \<open>K\<close>, the dispatcher does on the keychain reference what it does on a
  PRIVATEKEYHEX request with the secret \<open>K\<close>, the same \<open>ethAccount\<close> and the same
  transaction config, run in the world that the lookup leaves behind: the same result
  and the same final state.  When the lookup leaves the world as it was, the two
  requests have the same result from the same state.
\<close>

theorem keychain_ref_equals_private_key:
  assumes "cred_type (web3SigningCredential req) = CACTUSKEYCHAINREF"
    and "find (\<lambda>k. Some (getKeychainId k) = keychainId (web3SigningCredential req))
           (pluginRegistry s) = Some keychainPlugin"
    and "get keychainPlugin (keychainEntryKey (web3SigningCredential req)) (world s)
           = (Inr (Some K), w)"
    and "cred_type (web3SigningCredential req') = PRIVATEKEYHEX"
    and "secret (web3SigningCredential req') = Some K"
    and "ethAccount (web3SigningCredential req') = ethAccount (web3SigningCredential req)"
    and "transactionConfig req' = transactionConfig req"
  shows "transact web3 req s = transact web3 req' (s\<lparr>world := w\<rparr>)
       \<and> (w = world s \<longrightarrow> transact web3 req s = transact web3 req' s)"
proof -
  have after: "transact web3 req s = transact web3 req' (s\<lparr>world := w\<rparr>)"
    using assms
    by (simp add: transact_def transactCactusKeychainRef_def transactPrivateKey_def Let_def)
  moreover have "s\<lparr>world := world s\<rparr> = s" by simp
  ultimately show ?thesis by auto
qed

text \<open>
  The entry \<open>alice\<close> of the keychain \<open>kc2\<close> holds the key \<open>0xa11ce\<close>.  The keychain
  reference and the PRIVATEKEYHEX request with that key, the latter run after the
  lookup, both end with the receipt and the same state.
\<close>

theorem keychain_ref_equals_private_key_witness:
  "transact (sim_web3 10 (Some 1050)) (sim_keychain_request ''kc2'' ''alice'') sim_connector
     = transact (sim_web3 10 (Some 1050)) (sim_request PRIVATEKEYHEX (Some ''0xa11ce'') None)
         (sim_connector\<lparr>world := \<lparr>clock = 1000, calls = [KeychainGet (Some ''alice'')]\<rparr>\<rparr>)
   \<and> transact (sim_web3 10 (Some 1050)) (sim_request PRIVATEKEYHEX (Some ''0xa11ce'') None)
         (sim_connector\<lparr>world := \<lparr>clock = 1000, calls = [KeychainGet (Some ''alice'')]\<rparr>\<rparr>)
     = Some (Inr \<lparr>transactionReceipt = sim_receipt\<rparr>,
         \<lparr>pluginRegistry = pluginRegistry sim_connector, transactionCount = 8,
          world = \<lparr>clock = 1050,
                   calls = [KeychainGet (Some ''alice''), Sign (Some ''0xa11ce''),
                            Broadcast ''signed:0xa11ce'']\<rparr>\<rparr>)"
proof -
  have run: "transact (sim_web3 10 (Some 1050))
         (sim_request PRIVATEKEYHEX (Some ''0xa11ce'') None)
         (sim_connector\<lparr>world := \<lparr>clock = 1000, calls = [KeychainGet (Some ''alice'')]\<rparr>\<rparr>)
     = Some (Inr \<lparr>transactionReceipt = sim_receipt\<rparr>,
         \<lparr>pluginRegistry = pluginRegistry sim_connector, transactionCount = 8,
          world = \<lparr>clock = 1050,
                   calls = [KeychainGet (Some ''alice''), Sign (Some ''0xa11ce''),
                            Broadcast ''signed:0xa11ce'']\<rparr>\<rparr>)"
    by (simp add: transact_def transactPrivateKey_def transactSigned_def
        addCurrentTransaction_def truthy_def sim_web3_def sim_request_def sim_connector_def
        sim_config_def)
  from keychain_ref_equals_private_key
          [of "sim_keychain_request ''kc2'' ''alice''" sim_connector
              "sim_keychain ''kc2'' [(''alice'', ''0xa11ce'')]"
              "''0xa11ce''" "\<lparr>clock = 1000, calls = [KeychainGet (Some ''alice'')]\<rparr>"
              "sim_request PRIVATEKEYHEX (Some ''0xa11ce'') None" "sim_web3 10 (Some 1050)"]
  have "transact (sim_web3 10 (Some 1050)) (sim_keychain_request ''kc2'' ''alice'')
          sim_connector
     = transact (sim_web3 10 (Some 1050)) (sim_request PRIVATEKEYHEX (Some ''0xa11ce'') None)
         (sim_connector\<lparr>world := \<lparr>clock = 1000, calls = [KeychainGet (Some ''alice'')]\<rparr>\<rparr>)"
    by (simp add: sim_request_def sim_keychain_request_def sim_connector_def sim_keychain_def)
  with run show ?thesis by simp
qed

text \<open>No strategy touches the plugin registry.\<close>

lemma transactSigned_registry:
  "pluginRegistry (snd (transactSigned web3 rawTx s)) = pluginRegistry s"
  by (simp add: transactSigned_def addCurrentTransaction_def split: prod.splits sum.splits)

lemma transactPrivateKey_registry:
  "pluginRegistry (snd (transactPrivateKey web3 req s)) = pluginRegistry s"
  by (simp add: transactPrivateKey_def transactSigned_registry
      split: prod.splits sum.splits option.splits)

lemma transactCactusKeychainRef_registry:
  "pluginRegistry (snd (transactCactusKeychainRef web3 req s)) = pluginRegistry s"
  by (simp add: transactCactusKeychainRef_def Let_def transactPrivateKey_registry
      split: prod.splits sum.splits option.splits)

text \<open>
  Claim C9, as amended.  When the keychain plugin that the request refers to rejects
  the lookup of the entry, the dispatcher fails with the plugin's error as it is, in the
  state that the lookup leaves behind.  The result does not depend on the web3 client
  at all, so nothing was signed or broadcast.  And whatever the request and the state,
  the strategy returns the plugin registry that it found; the connector state has no
  other field that could hold the key.  The error of a missing entry is the plugin's
  to raise: the connector raises none of its own.
\<close>

theorem keychain_get_rejection_propagates:
  assumes "cred_type (web3SigningCredential req) = CACTUSKEYCHAINREF"
    and "find (\<lambda>k. Some (getKeychainId k) = keychainId (web3SigningCredential req))
           (pluginRegistry s) = Some keychainPlugin"
    and "get keychainPlugin (keychainEntryKey (web3SigningCredential req)) (world s)
           = (Inl ex, w)"
  shows "transact web3 req s = Some (Inl (CollaboratorError ex), s\<lparr>world := w\<rparr>)
       \<and> pluginRegistry (snd (transactCactusKeychainRef web3 req' s')) = pluginRegistry s'"
proof
  show "transact web3 req s = Some (Inl (CollaboratorError ex), s\<lparr>world := w\<rparr>)"
    using assms by (simp add: transact_def transactCactusKeychainRef_def Let_def)
  show "pluginRegistry (snd (transactCactusKeychainRef web3 req' s')) = pluginRegistry s'"
    by (rule transactCactusKeychainRef_registry)
qed

text \<open>
  The keychain \<open>kc2\<close> has no entry \<open>bob\<close> and rejects the lookup: the only call is
  the lookup.
\<close>

theorem keychain_get_rejection_propagates_witness:
  "transact (sim_web3 10 (Some 1050)) (sim_keychain_request ''kc2'' ''bob'') sim_connector
     = Some (Inl (CollaboratorError ''bob not found''),
         sim_connector\<lparr>world := \<lparr>clock = 1000, calls = [KeychainGet (Some ''bob'')]\<rparr>\<rparr>)"
  using keychain_get_rejection_propagates
          [of "sim_keychain_request ''kc2'' ''bob''" sim_connector
              "sim_keychain ''kc2'' [(''alice'', ''0xa11ce'')]" "''bob not found''"
              "\<lparr>clock = 1000, calls = [KeychainGet (Some ''bob'')]\<rparr>" "sim_web3 10 (Some 1050)"]
  by (simp add: sim_keychain_request_def sim_connector_def sim_keychain_def)

text \<open>
  The claim as stated fails for a keychain plugin that resolves with \<^verbatim>\<open>undefined\<close>
  when it holds no entry.  The keychain \<open>kc3\<close> is one, and it has no entry \<open>bob\<close>:
  its lookup resolves, the connector does not test what it resolves with, and the next
  call is \<^verbatim>\<open>signTransaction\<close> with no key.  The failure is the signer's, not a
  \<^verbatim>\<open>KeyNotFound\<close> of the plugin.
\<close>

theorem keychain_entry_undefined_counterexample:
  "map_of [(''alice'', ''0xa11ce'')] ''bob'' = None
   \<and> get (sim_memory_keychain ''kc3'' [(''alice'', ''0xa11ce'')]) (Some ''bob'')
         (world sim_memory_connector)
     = (Inr None, \<lparr>clock = 1000, calls = [KeychainGet (Some ''bob'')]\<rparr>)
   \<and> transact (sim_web3 10 (Some 1050)) (sim_keychain_request ''kc3'' ''bob'')
         sim_memory_connector
     = Some (Inl (CollaboratorError ''No private key''),
         sim_memory_connector\<lparr>world := \<lparr>clock = 1000,
            calls = [KeychainGet (Some ''bob''), Sign None]\<rparr>\<rparr>)"
  by (simp add: transact_def transactCactusKeychainRef_def Let_def transactPrivateKey_def
      sim_web3_def sim_keychain_request_def sim_memory_connector_def sim_memory_keychain_def
      sim_config_def)

text \<open>
  When no keychain plugin of the registry has the \<open>keychainId\<close> of the request, the
  dispatcher fails with \<open>KeychainNotFound\<close> and the state is as it was: no plugin and
  no web3 call was made.
\<close>

theorem keychain_not_found:
  assumes "cred_type (web3SigningCredential req) = CACTUSKEYCHAINREF"
    and "find (\<lambda>k. Some (getKeychainId k) = keychainId (web3SigningCredential req))
           (pluginRegistry s) = None"
  shows "transact web3 req s
     = Some (Inl (KeychainNotFound (keychainId (web3SigningCredential req))), s)"
  using assms by (simp add: transact_def transactCactusKeychainRef_def Let_def)

theorem keychain_not_found_witness:
  "transact (sim_web3 10 (Some 1050)) (sim_keychain_request ''kc9'' ''alice'') sim_connector
     = Some (Inl (KeychainNotFound (Some ''kc9'')), sim_connector)"
  using keychain_not_found
          [of "sim_keychain_request ''kc9'' ''alice''" sim_connector "sim_web3 10 (Some 1050)"]
  by (simp add: sim_keychain_request_def sim_connector_def sim_keychain_def)

section \<open>Failures and their kinds\<close>

text \<open>The failures that each strategy can end with.\<close>

lemma transactSigned_failure:
  assumes "transactSigned web3 rawTx s = (Inl e, s')"
  shows "\<exists>ex. e = CollaboratorError ex"
  using assms by (auto simp add: transactSigned_def split: prod.splits sum.splits)

lemma transactPrivateKey_failure:
  assumes "transactPrivateKey web3 req s = (Inl e, s')"
  shows "e = SigningFailed \<or> (\<exists>ex. e = CollaboratorError ex)"
  using assms
  by (auto simp add: transactPrivateKey_def split: prod.splits sum.splits option.splits
      dest: transactSigned_failure)

lemma transactCactusKeychainRef_failure:
  assumes "transactCactusKeychainRef web3 req s = (Inl e, s')"
  shows "e = SigningFailed \<or> (\<exists>kid. e = KeychainNotFound kid)
       \<or> (\<exists>ex. e = CollaboratorError ex)"
  using assms
  by (auto simp add: transactCactusKeychainRef_def Let_def
      split: prod.splits sum.splits option.splits dest: transactPrivateKey_failure)

lemma transactGethKeychain_failure:
  assumes "transactGethKeychain web3 req s = Some (Inl e, s')"
  shows "\<exists>inner. e = RemoteSigningFailed inner \<and>
           (case personal_sendTransaction web3 (transactionConfig req)
                   (secret (web3SigningCredential req)) (world s) of
              (Inl ex, w) \<Rightarrow> inner = CollaboratorError ex \<and> s' = s\<lparr>world := w\<rparr>
            | (Inr txHash, w) \<Rightarrow>
                pollForTxReceipt web3 txHash None (s\<lparr>world := w\<rparr>) = Some (Inl inner, s'))"
  using assms
  by (auto simp add: transactGethKeychain_def split: prod.splits sum.splits option.splits)

lemma transact_unwrapped_failure:
  assumes "transact web3 req s = Some (Inl e, s')"
    and "cred_type (web3SigningCredential req) \<noteq> GETHKEYCHAINPASSWORD"
  shows "e = SigningFailed \<or> e = MissingRawTransaction
       \<or> (\<exists>kid. e = KeychainNotFound kid) \<or> (\<exists>tag. e = UnsupportedCredentialType tag)
       \<or> (\<exists>ex. e = CollaboratorError ex)"
proof (cases "cred_type (web3SigningCredential req)")
  case CACTUSKEYCHAINREF
  with assms(1) have "transactCactusKeychainRef web3 req s = (Inl e, s')"
    by (simp add: transact_def)
  from transactCactusKeychainRef_failure[OF this] show ?thesis by blast
next
  case GETHKEYCHAINPASSWORD
  with assms(2) show ?thesis by simp
next
  case PRIVATEKEYHEX
  with assms(1) have "transactPrivateKey web3 req s = (Inl e, s')"
    by (simp add: transact_def)
  from transactPrivateKey_failure[OF this] show ?thesis by blast
next
  case NONE
  with assms(1) show ?thesis
    by (auto simp add: transact_def split: option.splits dest: transactSigned_failure)
next
  case (Unrecognized tag)
  with assms(1) show ?thesis by (auto simp add: transact_def)
qed





text \<open>
  The kinds of failure that the caller of the dispatcher can see.  Whenever the
  dispatcher fails, the failure is that of the chosen strategy.  On every path but
  GETHKEYCHAINPASSWORD it is never a \<open>RemoteSigningFailed\<close>.  On the
  GETHKEYCHAINPASSWORD path it is always a \<open>RemoteSigningFailed\<close>, around the node's
  rejection of the send or around the failure of the receipt poller.  On no path is it
  a \<open>PollTimeout\<close>.
\<close>

theorem transact_failure_kinds:
  assumes "transact web3 req s = Some (Inl e, s')"
  shows "(cred_type (web3SigningCredential req) = CACTUSKEYCHAINREF \<longrightarrow>
            transactCactusKeychainRef web3 req s = (Inl e, s'))
       \<and> (cred_type (web3SigningCredential req) = PRIVATEKEYHEX \<longrightarrow>
            transactPrivateKey web3 req s = (Inl e, s'))
       \<and> (cred_type (web3SigningCredential req) = GETHKEYCHAINPASSWORD \<longrightarrow>
            transactGethKeychain web3 req s = Some (Inl e, s'))
       \<and> (cred_type (web3SigningCredential req) \<noteq> GETHKEYCHAINPASSWORD \<longrightarrow>
            (\<forall>inner. e \<noteq> RemoteSigningFailed inner))
       \<and> (cred_type (web3SigningCredential req) = GETHKEYCHAINPASSWORD \<longrightarrow>
            (\<exists>inner. e = RemoteSigningFailed inner \<and>
               (case personal_sendTransaction web3 (transactionConfig req)
                       (secret (web3SigningCredential req)) (world s) of
                  (Inl ex, w) \<Rightarrow> inner = CollaboratorError ex \<and> s' = s\<lparr>world := w\<rparr>
                | (Inr txHash, w) \<Rightarrow>
                    pollForTxReceipt web3 txHash None (s\<lparr>world := w\<rparr>)
                      = Some (Inl inner, s'))))
       \<and> (\<forall>t n. e \<noteq> PollTimeout t n)"
proof (intro conjI impI allI)
  assume "cred_type (web3SigningCredential req) = CACTUSKEYCHAINREF"
  with assms show "transactCactusKeychainRef web3 req s = (Inl e, s')"
    by (simp add: transact_def)
next
  assume "cred_type (web3SigningCredential req) = PRIVATEKEYHEX"
  with assms show "transactPrivateKey web3 req s = (Inl e, s')"
    by (simp add: transact_def)
next
  assume "cred_type (web3SigningCredential req) = GETHKEYCHAINPASSWORD"
  with assms show "transactGethKeychain web3 req s = Some (Inl e, s')"
    by (simp add: transact_def)
next
  fix inner
  assume "cred_type (web3SigningCredential req) \<noteq> GETHKEYCHAINPASSWORD"
  from transact_unwrapped_failure[OF assms this] show "e \<noteq> RemoteSigningFailed inner"
    by auto
next
  assume geth: "cred_type (web3SigningCredential req) = GETHKEYCHAINPASSWORD"
  with assms have "transactGethKeychain web3 req s = Some (Inl e, s')"
    by (simp add: transact_def)
  from transactGethKeychain_failure[OF this]
  show "\<exists>inner. e = RemoteSigningFailed inner \<and>
               (case personal_sendTransaction web3 (transactionConfig req)
                       (secret (web3SigningCredential req)) (world s) of
                  (Inl ex, w) \<Rightarrow> inner = CollaboratorError ex \<and> s' = s\<lparr>world := w\<rparr>
                | (Inr txHash, w) \<Rightarrow>
                    pollForTxReceipt web3 txHash None (s\<lparr>world := w\<rparr>)
                      = Some (Inl inner, s'))" .
next
  fix t n
  show "e \<noteq> PollTimeout t n"
  proof (cases "cred_type (web3SigningCredential req) = GETHKEYCHAINPASSWORD")
    case True
    with assms have "transactGethKeychain web3 req s = Some (Inl e, s')"
      by (simp add: transact_def)
    from transactGethKeychain_failure[OF this] show ?thesis by auto
  next
    case False
    from transact_unwrapped_failure[OF assms this] show ?thesis by auto
  qed
qed

text \<open>
  A node that takes 25 seconds for every round trip and never has a receipt: the poller,
  started at 26000 with the default timeout, gives up after its third fetch.
\<close>

lemma geth_run_25000:
  "transact (sim_web3 25000 None) (sim_request GETHKEYCHAINPASSWORD (Some ''pw'') (Some 5000))
       sim_connector
     = Some (Inl (RemoteSigningFailed (PollTimeout 60000 3)),
         sim_connector\<lparr>world := \<lparr>clock = 101000,
            calls = [NodeSend, Fetch ''0xhash'', Fetch ''0xhash'', Fetch ''0xhash'']\<rparr>\<rparr>)"
  by (simp add: transact_def transactGethKeychain_def pollForTxReceipt_def poll_loop.simps
      sim_web3_def sim_request_def sim_connector_def)

theorem transact_failure_kinds_witness:
  "transact (sim_web3 25000 None) (sim_request GETHKEYCHAINPASSWORD (Some ''pw'') (Some 5000))
       sim_connector
     = Some (Inl (RemoteSigningFailed (PollTimeout 60000 3)),
         sim_connector\<lparr>world := \<lparr>clock = 101000,
            calls = [NodeSend, Fetch ''0xhash'', Fetch ''0xhash'', Fetch ''0xhash'']\<rparr>\<rparr>)
   \<and> pollForTxReceipt (sim_web3 25000 None) ''0xhash'' None
         (sim_connector\<lparr>world := \<lparr>clock = 26000, calls = [NodeSend]\<rparr>\<rparr>)
     = Some (Inl (PollTimeout 60000 3),
         sim_connector\<lparr>world := \<lparr>clock = 101000,
            calls = [NodeSend, Fetch ''0xhash'', Fetch ''0xhash'', Fetch ''0xhash'']\<rparr>\<rparr>)"
proof -
  let ?req = "sim_request GETHKEYCHAINPASSWORD (Some ''pw'') (Some 5000)"
  have tag: "cred_type (web3SigningCredential ?req) = GETHKEYCHAINPASSWORD"
    by (simp add: sim_request_def)
  have send: "personal_sendTransaction (sim_web3 25000 None) (transactionConfig ?req)
       (secret (web3SigningCredential ?req)) (world sim_connector)
     = (Inr ''0xhash'', \<lparr>clock = 26000, calls = [NodeSend]\<rparr>)"
    by (simp add: sim_web3_def sim_request_def sim_connector_def)
  from transact_failure_kinds[OF geth_run_25000] tag send geth_run_25000
  show ?thesis by simp
qed

text \<open>
  In the other direction, on the paths that have no \<^verbatim>\<open>catch\<close>: when the broadcast of
  a NONE request rejects, and when the signing of a PRIVATEKEYHEX request rejects, the
  dispatcher fails with that rejection as it is, in the state that the call leaves
  behind.
\<close>

theorem rejections_reach_caller_unchanged:
  "(cred_type (web3SigningCredential req) = NONE
      \<and> truthy (rawTransaction (transactionConfig req)) = Some rawTx
      \<and> sendSignedTransaction web3 rawTx (world s) = (Inl ex, w)
     \<longrightarrow> transact web3 req s = Some (Inl (CollaboratorError ex), s\<lparr>world := w\<rparr>))
   \<and> (cred_type (web3SigningCredential req) = PRIVATEKEYHEX
      \<and> signTransaction web3 (transactionConfig req) (secret (web3SigningCredential req))
           (world s) = (Inl ex, w)
     \<longrightarrow> transact web3 req s = Some (Inl (CollaboratorError ex), s\<lparr>world := w\<rparr>))"
  by (simp add: transact_def transactSigned_def transactPrivateKey_def)

theorem rejections_reach_caller_unchanged_witness:
  "transact (sim_web3 10 None)
       ((sim_request NONE None None)
          \<lparr>transactionConfig := sim_config\<lparr>rawTransaction := Some ''0xf86b''\<rparr>\<rparr>)
       sim_connector
     = Some (Inl (CollaboratorError ''Transaction was not mined within 750 seconds''),
         sim_connector\<lparr>world := \<lparr>clock = 751000, calls = [Broadcast ''0xf86b'']\<rparr>\<rparr>)
   \<and> transact (sim_web3 10 (Some 1050)) (sim_request PRIVATEKEYHEX None None) sim_connector
     = Some (Inl (CollaboratorError ''No private key''),
         sim_connector\<lparr>world := \<lparr>clock = 1000, calls = [Sign None]\<rparr>\<rparr>)"
proof -
  let ?r1 = "(sim_request NONE None None)
          \<lparr>transactionConfig := sim_config\<lparr>rawTransaction := Some ''0xf86b''\<rparr>\<rparr>"
  let ?r2 = "sim_request PRIVATEKEYHEX None None"
  have a: "cred_type (web3SigningCredential ?r1) = NONE
     \<and> truthy (rawTransaction (transactionConfig ?r1)) = Some ''0xf86b''"
    by (simp add: sim_request_def truthy_def)
  have b: "sendSignedTransaction (sim_web3 10 None) ''0xf86b'' (world sim_connector)
     = (Inl ''Transaction was not mined within 750 seconds'',
        \<lparr>clock = 751000, calls = [Broadcast ''0xf86b'']\<rparr>)"
    by (simp add: sim_web3_def sim_connector_def)
  have c: "cred_type (web3SigningCredential ?r2) = PRIVATEKEYHEX
     \<and> signTransaction (sim_web3 10 (Some 1050)) (transactionConfig ?r2)
         (secret (web3SigningCredential ?r2)) (world sim_connector)
       = (Inl ''No private key'', \<lparr>clock = 1000, calls = [Sign None]\<rparr>)"
    by (simp add: sim_request_def sim_web3_def sim_connector_def)
  from rejections_reach_caller_unchanged
         [of ?r1 "''0xf86b''" "sim_web3 10 None" sim_connector
             "''Transaction was not mined within 750 seconds''"
             "\<lparr>clock = 751000, calls = [Broadcast ''0xf86b'']\<rparr>"]
       a b
  have one: "transact (sim_web3 10 None) ?r1 sim_connector
     = Some (Inl (CollaboratorError ''Transaction was not mined within 750 seconds''),
         sim_connector\<lparr>world := \<lparr>clock = 751000, calls = [Broadcast ''0xf86b'']\<rparr>\<rparr>)"
    by simp
  from rejections_reach_caller_unchanged
         [of ?r2 _ "sim_web3 10 (Some 1050)" sim_connector "''No private key''"
             "\<lparr>clock = 1000, calls = [Sign None]\<rparr>"]
       c
  have two: "transact (sim_web3 10 (Some 1050)) ?r2 sim_connector
     = Some (Inl (CollaboratorError ''No private key''),
         sim_connector\<lparr>world := \<lparr>clock = 1000, calls = [Sign None]\<rparr>\<rparr>)"
    by simp
  from one two show ?thesis by simp
qed

text \<open>
  When the signed transaction comes back without a \<^verbatim>\<open>rawTransaction\<close>, or with an
  empty one, a PRIVATEKEYHEX request fails with \<open>SigningFailed\<close> in the state that the
  signing leaves behind: nothing is broadcast.
\<close>

theorem signing_failed_when_blank:
  assumes "cred_type (web3SigningCredential req) = PRIVATEKEYHEX"
    and "signTransaction web3 (transactionConfig req) (secret (web3SigningCredential req))
           (world s) = (Inr signedTx_rawTransaction, w)"
    and "signedTx_rawTransaction = None \<or> signedTx_rawTransaction = Some []"
  shows "transact web3 req s = Some (Inl SigningFailed, s\<lparr>world := w\<rparr>)"
  using assms by (auto simp add: transact_def transactPrivateKey_def truthy_def)

theorem signing_failed_when_blank_witness:
  "transact sim_blank_signer (sim_request PRIVATEKEYHEX (Some ''0xa11ce'') None) sim_connector
     = Some (Inl SigningFailed,
         sim_connector\<lparr>world := \<lparr>clock = 1000, calls = [Sign (Some ''0xa11ce'')]\<rparr>\<rparr>)"
  using signing_failed_when_blank
          [of "sim_request PRIVATEKEYHEX (Some ''0xa11ce'') None" sim_blank_signer sim_connector
              "Some ''''" "\<lparr>clock = 1000, calls = [Sign (Some ''0xa11ce'')]\<rparr>"]
  by (simp add: sim_blank_signer_def sim_web3_def sim_request_def sim_connector_def)

text \<open>
  The test of the NONE branch is JavaScript truthiness: a raw transaction that is the
  empty string counts as missing.
\<close>

theorem empty_raw_transaction_is_missing:
  assumes "cred_type (web3SigningCredential req) = NONE"
    and "rawTransaction (transactionConfig req) = Some []"
  shows "transact web3 req s = Some (Inl MissingRawTransaction, s)"
  using assms by (simp add: transact_def truthy_def)

theorem empty_raw_transaction_is_missing_witness:
  "transact (sim_web3 10 (Some 1050))
       ((sim_request NONE None None)
          \<lparr>transactionConfig := sim_config\<lparr>rawTransaction := Some ''''\<rparr>\<rparr>)
       sim_connector
     = Some (Inl MissingRawTransaction, sim_connector)"
  using empty_raw_transaction_is_missing
          [of "(sim_request NONE None None)
                 \<lparr>transactionConfig := sim_config\<lparr>rawTransaction := Some ''''\<rparr>\<rparr>"
              "sim_web3 10 (Some 1050)" sim_connector]
  by (simp add: sim_request_def)

text \<open>
  When the node rejects \<^verbatim>\<open>personal.sendTransaction\<close>, a GETHKEYCHAINPASSWORD request
  fails with \<open>RemoteSigningFailed\<close> around the node's error, in the state that the call
  leaves behind: no receipt is polled for.
\<close>

theorem remote_signing_failed_when_node_rejects:
  assumes "cred_type (web3SigningCredential req) = GETHKEYCHAINPASSWORD"
    and "personal_sendTransaction web3 (transactionConfig req)
           (secret (web3SigningCredential req)) (world s) = (Inl ex, w)"
  shows "transact web3 req s
     = Some (Inl (RemoteSigningFailed (CollaboratorError ex)), s\<lparr>world := w\<rparr>)"
  using assms by (simp add: transact_def transactGethKeychain_def)

theorem remote_signing_failed_when_node_rejects_witness:
  "transact sim_rejecting_node (sim_request GETHKEYCHAINPASSWORD (Some ''wrong'') None)
       sim_connector
     = Some (Inl (RemoteSigningFailed
                    (CollaboratorError ''could not decrypt key with given password'')),
         sim_connector\<lparr>world := \<lparr>clock = 1010, calls = [NodeSend]\<rparr>\<rparr>)"
  using remote_signing_failed_when_node_rejects
          [of "sim_request GETHKEYCHAINPASSWORD (Some ''wrong'') None" sim_rejecting_node
              sim_connector "''could not decrypt key with given password''"
              "\<lparr>clock = 1010, calls = [NodeSend]\<rparr>"]
  by (simp add: sim_rejecting_node_def sim_web3_def sim_request_def sim_connector_def)

section \<open>The transaction counter\<close>

text \<open>
  \<^verbatim>\<open>transactSigned\<close> counts a transaction exactly when it succeeds;
  \<^verbatim>\<open>transactGethKeychain\<close> never touches the counter.
\<close>

lemma transactSigned_counter:
  "transactionCount (snd (transactSigned web3 rawTx s))
     = (case fst (transactSigned web3 rawTx s) of
          Inl e \<Rightarrow> transactionCount s
        | Inr response \<Rightarrow> transactionCount s + 1)"
  by (simp add: transactSigned_def addCurrentTransaction_def split: prod.splits sum.splits)

lemma transactGethKeychain_counter:
  assumes "transactGethKeychain web3 req s = Some (r, s')"
  shows "transactionCount s' = transactionCount s"
  using assms
  by (auto simp add: transactGethKeychain_def pollForTxReceipt_def Let_def
      split: prod.splits sum.splits option.splits)

text \<open>
  Claim C7: every successful submission, on the GETHKEYCHAINPASSWORD path as on the
  three others, increments the transaction counter exactly once.  The code does not
  do so on the GETHKEYCHAINPASSWORD path.  Against a node that has the receipt at once,
  a GETHKEYCHAINPASSWORD request succeeds and leaves the counter at 7, where it was;
  the PRIVATEKEYHEX request on the same node and state succeeds and takes it to 8.
\<close>

theorem geth_keychain_transaction_not_counted:
  "transact (sim_web3 10 (Some 1000)) (sim_request GETHKEYCHAINPASSWORD (Some ''pw'') None)
       sim_connector
     = Some (Inr \<lparr>transactionReceipt = sim_receipt\<rparr>,
         \<lparr>pluginRegistry = pluginRegistry sim_connector, transactionCount = 7,
          world = \<lparr>clock = 1020, calls = [NodeSend, Fetch ''0xhash'']\<rparr>\<rparr>)
   \<and> transact (sim_web3 10 (Some 1000)) (sim_request PRIVATEKEYHEX (Some ''0xa11ce'') None)
       sim_connector
     = Some (Inr \<lparr>transactionReceipt = sim_receipt\<rparr>,
         \<lparr>pluginRegistry = pluginRegistry sim_connector, transactionCount = 8,
          world = \<lparr>clock = 1010,
                   calls = [Sign (Some ''0xa11ce''), Broadcast ''signed:0xa11ce'']\<rparr>\<rparr>)
   \<and> transactionCount sim_connector = 7"
  by (simp add: transact_def transactGethKeychain_def pollForTxReceipt_def poll_loop.simps
      transactPrivateKey_def transactSigned_def addCurrentTransaction_def truthy_def
      sim_web3_def sim_request_def sim_connector_def)

lemma transactPrivateKey_counter:
  "transactionCount (snd (transactPrivateKey web3 req s))
     = (case fst (transactPrivateKey web3 req s) of
          Inl e \<Rightarrow> transactionCount s
        | Inr response \<Rightarrow> transactionCount s + 1)"
  by (simp add: transactPrivateKey_def transactSigned_counter
      split: prod.splits sum.splits option.splits)

lemma transactCactusKeychainRef_counter:
  "transactionCount (snd (transactCactusKeychainRef web3 req s))
     = (case fst (transactCactusKeychainRef web3 req s) of
          Inl e \<Rightarrow> transactionCount s
        | Inr response \<Rightarrow> transactionCount s + 1)"
  by (simp add: transactCactusKeychainRef_def Let_def transactPrivateKey_counter
      split: prod.splits sum.splits option.splits)

text \<open>
  On every path but GETHKEYCHAINPASSWORD, a submission that succeeds increments the
  counter exactly once, and one that fails leaves it as it was.
\<close>

theorem signed_paths_count_once:
  assumes "cred_type (web3SigningCredential req) \<noteq> GETHKEYCHAINPASSWORD"
    and "transact web3 req s = Some (r, s')"
  shows "transactionCount s'
     = (case r of Inl e \<Rightarrow> transactionCount s | Inr response \<Rightarrow> transactionCount s + 1)"
proof (cases "cred_type (web3SigningCredential req)")
  case CACTUSKEYCHAINREF
  with assms(2) have "transactCactusKeychainRef web3 req s = (r, s')"
    by (simp add: transact_def)
  with transactCactusKeychainRef_counter[of web3 req s] show ?thesis by simp
next
  case GETHKEYCHAINPASSWORD
  with assms(1) show ?thesis by simp
next
  case PRIVATEKEYHEX
  with assms(2) have "transactPrivateKey web3 req s = (r, s')"
    by (simp add: transact_def)
  with transactPrivateKey_counter[of web3 req s] show ?thesis by simp
next
  case NONE
  show ?thesis
  proof (cases "truthy (rawTransaction (transactionConfig req))")
    case None
    with NONE assms(2) show ?thesis by (auto simp add: transact_def)
  next
    case (Some rawTx)
    with NONE assms(2) have "transactSigned web3 rawTx s = (r, s')"
      by (simp add: transact_def)
    with transactSigned_counter[of web3 rawTx s] show ?thesis by simp
  qed
next
  case (Unrecognized tag)
  with assms(2) show ?thesis by (auto simp add: transact_def)
qed

text \<open>
  A keychain reference that resolves, on a node that has the receipt from 1050 on: the
  counter goes from 7 to 8.
\<close>

theorem signed_paths_count_once_witness:
  "transact (sim_web3 10 (Some 1050)) (sim_keychain_request ''kc2'' ''alice'') sim_connector
     = Some (Inr \<lparr>transactionReceipt = sim_receipt\<rparr>,
         \<lparr>pluginRegistry = pluginRegistry sim_connector, transactionCount = 8,
          world = \<lparr>clock = 1050,
                   calls = [KeychainGet (Some ''alice''), Sign (Some ''0xa11ce''),
                            Broadcast ''signed:0xa11ce'']\<rparr>\<rparr>)
   \<and> transactionCount sim_connector + 1 = 8"
proof -
  have tag: "cred_type (web3SigningCredential (sim_keychain_request ''kc2'' ''alice''))
      \<noteq> GETHKEYCHAINPASSWORD"
    by (simp add: sim_keychain_request_def)
  have run: "transact (sim_web3 10 (Some 1050)) (sim_keychain_request ''kc2'' ''alice'')
       sim_connector
     = Some (Inr \<lparr>transactionReceipt = sim_receipt\<rparr>,
         \<lparr>pluginRegistry = pluginRegistry sim_connector, transactionCount = 8,
          world = \<lparr>clock = 1050,
                   calls = [KeychainGet (Some ''alice''), Sign (Some ''0xa11ce''),
                            Broadcast ''signed:0xa11ce'']\<rparr>\<rparr>)"
    by (simp add: transact_def transactCactusKeychainRef_def Let_def transactPrivateKey_def
        transactSigned_def addCurrentTransaction_def truthy_def
        sim_web3_def sim_keychain_request_def sim_connector_def sim_keychain_def sim_config_def)
  from signed_paths_count_once[OF tag run] run show ?thesis by simp
qed

text \<open>Two states that differ in the counter only lead each strategy to the same outcome.\<close>

lemma transactSigned_frame:
  assumes "pluginRegistry s1 = pluginRegistry s2" and "world s1 = world s2"
  shows "without_counter (transactSigned web3 rawTx s1)
       = without_counter (transactSigned web3 rawTx s2)"
  using assms
  by (simp add: without_counter_def transactSigned_def addCurrentTransaction_def
      split: prod.splits sum.splits)

lemma transactPrivateKey_frame:
  assumes "pluginRegistry s1 = pluginRegistry s2" and "world s1 = world s2"
  shows "without_counter (transactPrivateKey web3 req s1)
       = without_counter (transactPrivateKey web3 req s2)"
proof -
  have signed: "without_counter (transactSigned web3 rawTx (s1\<lparr>world := w\<rparr>))
     = without_counter (transactSigned web3 rawTx (s2\<lparr>world := w\<rparr>))" for rawTx w
    using assms by (intro transactSigned_frame) simp_all
  show ?thesis
    using assms
    by (simp add: transactPrivateKey_def signed split: prod.splits sum.splits option.splits)
      (simp add: without_counter_def)
qed

lemma transactCactusKeychainRef_frame:
  assumes "pluginRegistry s1 = pluginRegistry s2" and "world s1 = world s2"
  shows "without_counter (transactCactusKeychainRef web3 req s1)
       = without_counter (transactCactusKeychainRef web3 req s2)"
proof -
  have pk: "without_counter (transactPrivateKey web3 r (s1\<lparr>world := w\<rparr>))
     = without_counter (transactPrivateKey web3 r (s2\<lparr>world := w\<rparr>))" for r w
    using assms by (intro transactPrivateKey_frame) simp_all
  show ?thesis
    using assms
    by (simp add: transactCactusKeychainRef_def Let_def pk
        split: prod.splits sum.splits option.splits)
      (simp add: without_counter_def)
qed

lemma pollForTxReceipt_frame:
  assumes "pluginRegistry s1 = pluginRegistry s2" and "world s1 = world s2"
  shows "map_option without_counter (pollForTxReceipt web3 txHash t s1)
       = map_option without_counter (pollForTxReceipt web3 txHash t s2)"
  using assms
  by (simp add: pollForTxReceipt_def Let_def without_counter_def
      split: prod.splits sum.splits option.splits)

lemma transactGethKeychain_frame:
  assumes "pluginRegistry s1 = pluginRegistry s2" and "world s1 = world s2"
  shows "map_option without_counter (transactGethKeychain web3 req s1)
       = map_option without_counter (transactGethKeychain web3 req s2)"
proof -
  have poll: "map_option without_counter (pollForTxReceipt web3 txHash None (s1\<lparr>world := w\<rparr>))
     = map_option without_counter (pollForTxReceipt web3 txHash None (s2\<lparr>world := w\<rparr>))"
    for txHash w
    using assms by (intro pollForTxReceipt_frame) simp_all
  have post: "map_option without_counter
        (case P of
           None \<Rightarrow> None
         | Some (Inl ex, s') \<Rightarrow> Some (Inl (RemoteSigningFailed ex), s')
         | Some (Inr receipt, s') \<Rightarrow> Some (Inr \<lparr>transactionReceipt = receipt\<rparr>, s'))
     = map_option
         (\<lambda>(a, rw). (case a of Inl ex \<Rightarrow> Inl (RemoteSigningFailed ex)
                       | Inr receipt \<Rightarrow> Inr \<lparr>transactionReceipt = receipt\<rparr>, rw))
         (map_option without_counter P)"
    for P :: "((error + TransactionReceipt) \<times> 'a connector) option"
    by (simp add: without_counter_def split: option.splits prod.splits sum.splits)
  show ?thesis
  proof (cases "personal_sendTransaction web3 (transactionConfig req)
             (secret (web3SigningCredential req)) (world s2)")
    case (Pair res w)
    show ?thesis
    proof (cases res)
      case (Inl ex)
      with Pair assms show ?thesis by (simp add: transactGethKeychain_def without_counter_def)
    next
      case (Inr txHash)
      with Pair assms show ?thesis
        by (simp add: transactGethKeychain_def post poll)
    qed
  qed
qed

text \<open>
  The counter affects neither the response nor the control flow: whatever value it
  has at the call, the dispatcher returns or not alike, with the same response or
  failure, the same plugin registry and the same world.
\<close>

theorem transact_independent_of_counter:
  "map_option without_counter (transact web3 req (s\<lparr>transactionCount := n\<rparr>))
     = map_option without_counter (transact web3 req s)"
proof -
  have r: "pluginRegistry (s\<lparr>transactionCount := n\<rparr>) = pluginRegistry s"
    and w: "world (s\<lparr>transactionCount := n\<rparr>) = world s"
    by simp_all
  show ?thesis
  proof (cases "cred_type (web3SigningCredential req)")
    case CACTUSKEYCHAINREF
    then show ?thesis by (simp add: transact_def transactCactusKeychainRef_frame[OF r w])
  next
    case GETHKEYCHAINPASSWORD
    then show ?thesis by (simp add: transact_def transactGethKeychain_frame[OF r w])
  next
    case PRIVATEKEYHEX
    then show ?thesis by (simp add: transact_def transactPrivateKey_frame[OF r w])
  next
    case NONE
    then show ?thesis
      by (simp add: transact_def transactSigned_frame[OF r w] split: option.splits)
        (simp add: without_counter_def)
  next
    case (Unrecognized tag)
    then show ?thesis by (simp add: transact_def without_counter_def)
  qed
qed

section \<open>Termination\<close>

text \<open>
  The only loop is that of the poller.  When every receipt fetch advances the clock,
  the dispatcher returns on every request: with a response or with a failure.
\<close>

theorem transact_returns:
  assumes "\<forall>txHash w. now web3 w < now web3 (fetch_step web3 txHash w)"
  shows "\<exists>out. transact web3 req s = Some out"
proof (cases "cred_type (web3SigningCredential req)")
  case GETHKEYCHAINPASSWORD
  have poll: "\<exists>out. pollForTxReceipt web3 txHash t s0 = Some out" for txHash t s0
  proof -
    from assms have "\<forall>w. now web3 w < now web3 (fetch_step web3 txHash w)" by simp
    from poll_loop_returns[OF this] obtain out where
      "poll_loop web3 txHash (now web3 (world s0)) (case t of None \<Rightarrow> 60000 | Some t' \<Rightarrow> t') 0
         (world s0) = Some out" by blast
    then show ?thesis
      by (simp add: pollForTxReceipt_def Let_def split: prod.splits sum.splits option.splits)
  qed
  obtain res w where send: "personal_sendTransaction web3 (transactionConfig req)
             (secret (web3SigningCredential req)) (world s) = (res, w)"
    by (cases "personal_sendTransaction web3 (transactionConfig req)
             (secret (web3SigningCredential req)) (world s)")
  show ?thesis
  proof (cases res)
    case (Inl ex)
    with send GETHKEYCHAINPASSWORD show ?thesis
      by (simp add: transact_def transactGethKeychain_def)
  next
    case (Inr txHash)
    from poll[of txHash None "s\<lparr>world := w\<rparr>"] obtain out
      where "pollForTxReceipt web3 txHash None (s\<lparr>world := w\<rparr>) = Some out" ..
    with send Inr GETHKEYCHAINPASSWORD show ?thesis
      by (simp add: transact_def transactGethKeychain_def split: prod.splits sum.splits)
  qed
qed (simp_all add: transact_def split: option.splits)

theorem transact_returns_witness:
  "\<exists>out. transact (sim_web3 10 None) (sim_request GETHKEYCHAINPASSWORD (Some ''pw'') None)
      sim_connector = Some out"
proof -
  have "\<forall>txHash w. now (sim_web3 10 None) w
          < now (sim_web3 10 None) (fetch_step (sim_web3 10 None) txHash w)"
    by (simp add: sim_web3_def fetch_step_def)
  from transact_returns[OF this] show ?thesis .
qed

end
